theory Spec2Isabelle
  imports Complex_Main "HOL-Library.Sublist"
begin

section \<open>The generative-backend client: \<open>withRetry\<close>\<close>

text \<open>
  A value thrown by the wrapped call. The wrapper only ever looks at the \<open>message\<close>
  property, which may be absent (the source reads it with \<open>?.\<close>); \<open>errName\<close> stands
  for the rest of the object, so that two errors with the same message can differ.
\<close>

record js_error =
  message :: "string option"
  errName :: string

text \<open>\<open>String.prototype.includes\<close>: does \<open>sub\<close> occur in \<open>s\<close> as a contiguous run.\<close>

fun str_includes :: "string \<Rightarrow> string \<Rightarrow> bool" where
  "str_includes [] sub = (sub = [])"
| "str_includes (c # cs) sub = (prefix sub (c # cs) \<or> str_includes cs sub)"

definition isQuotaError :: "js_error \<Rightarrow> bool" where
  "isQuotaError error =
     (case message error of
        None \<Rightarrow> False
      | Some m \<Rightarrow> str_includes m ''429'' \<or> str_includes m ''quota'' \<or> str_includes m ''EXHAUSTED'')"

text \<open>
  \<open>fn\<close> is a thunk that may answer differently each time it is called: \<open>fn k\<close> is the
  outcome of its \<open>k\<close>-th call (\<open>Inl\<close> a rejection, \<open>Inr\<close> the resolved value). The
  wrapper returns the outcome it settles with and the list of delays (in ms) it slept,
  in order.
\<close>

function withRetry ::
  "(nat \<Rightarrow> js_error + 'a) \<Rightarrow> nat \<Rightarrow> int \<Rightarrow> int \<Rightarrow> (js_error + 'a) \<times> int list" where
  "withRetry fn k retries delay =
     (case fn k of
        Inr v \<Rightarrow> (Inr v, [])
      | Inl error \<Rightarrow>
          if retries > 0 \<and> isQuotaError error
          then (case withRetry fn (Suc k) (retries - 1) (delay * 2) of
                  (r, slept) \<Rightarrow> (r, delay # slept))
          else (Inl error, []))"
  by pat_completeness auto
termination
  by (relation "measure (\<lambda>(fn, k, retries, delay). nat retries)") auto

declare withRetry.simps [simp del]

text \<open>Every call site uses the default arguments \<open>retries = 2\<close>, \<open>delay = 2000\<close>.\<close>

definition withRetry_default :: "(nat \<Rightarrow> js_error + 'a) \<Rightarrow> (js_error + 'a) \<times> int list" where
  "withRetry_default fn = withRetry fn 0 2 2000"

section \<open>The audio engine: \<open>AudioManager\<close>\<close>

subsection \<open>Props and graph\<close>

datatype BotLockStatus = UNLOCKED | SCANNING | LOCKED | OVERRIDE

text \<open>
  The props of the component. \<open>profile\<close> is a string at run time (it arrives decoded from
  the backend's JSON), so the model keeps it a string; JavaScript numbers are modelled
  as reals.
\<close>

record props =
  profile :: string
  status :: BotLockStatus
  scrollPos :: real
  isMuted :: bool

datatype OscillatorType = Sine | Square | Sawtooth | Triangle

datatype BiquadFilterType = Lowpass | Highpass | Bandpass | Notch

text \<open>The \<open>AudioParam\<close>s of the graph the component builds.\<close>

datatype param =
    MainGain
  | NoiseGain
  | FilterFrequency
  | FilterQ
  | DroneGain
  | Pan
  | BankFrequency nat
  | AlarmGain
  | AlarmFrequency

text \<open>
  The automation methods the source calls on an \<open>AudioParam\<close>, with their arguments in
  the order of the call: \<open>setValueAtTime(value, startTime)\<close>,
  \<open>setTargetAtTime(target, startTime, timeConstant)\<close>,
  \<open>linearRampToValueAtTime(value, endTime)\<close> and
  \<open>exponentialRampToValueAtTime(value, endTime)\<close>. Times are in seconds.
\<close>

datatype event =
    SetValueAtTime real real
  | SetTargetAtTime real real real
  | LinearRampToValueAtTime real real
  | ExponentialRampToValueAtTime real real

text \<open>The five interval callbacks of the source, and a live interval.\<close>

datatype routine = AlarmSweep | WindGust | MachinePulse | GlitchBlip | DetuneJitter

record timer =
  tid :: nat
  callback :: routine
  period :: nat

text \<open>
  The state of a mounted component: the props of the last render, the refs (\<open>built\<close>
  says that the mount effect has filled them; \<open>bank\<close> is \<open>oscBankRef.current\<close>, one
  waveform per oscillator), the attribute writes (\<open>filterType\<close>, the waveforms, the
  \<open>.value\<close> every parameter starts from), every automation call made so far in call
  order, the live intervals, and the interval that the cleanup function returned by the
  last run of the status effect and of the profile effect would clear (\<open>None\<close> when the
  effect returned no cleanup or captured \<open>null\<close>).
\<close>

record engine =
  rendered :: props
  built :: bool
  bank :: "OscillatorType list"
  alarmOscType :: OscillatorType
  filterType :: BiquadFilterType
  value0 :: "param \<Rightarrow> real"
  automation :: "(param \<times> event) list"
  timers :: "timer list"
  nextTimerId :: nat
  statusCleanup :: "nat option"
  profileCleanup :: "nat option"

subsection \<open>Platform primitives\<close>

definition schedule :: "(param \<times> event) list \<Rightarrow> engine \<Rightarrow> engine" where
  "schedule calls st = st\<lparr>automation := automation st @ calls\<rparr>"

definition setInterval :: "routine \<Rightarrow> nat \<Rightarrow> engine \<Rightarrow> nat \<times> engine" where
  "setInterval cb ms st =
     (nextTimerId st,
      st\<lparr>timers := timers st @ [\<lparr>tid = nextTimerId st, callback = cb, period = ms\<rparr>],
         nextTimerId := Suc (nextTimerId st)\<rparr>)"

definition clearInterval :: "nat \<Rightarrow> engine \<Rightarrow> engine" where
  "clearInterval i st = st\<lparr>timers := filter (\<lambda>t. tid t \<noteq> i) (timers st)\<rparr>"

text \<open>
  The value a parameter has before any automation: the defaults of the nodes (gain 1,
  oscillator frequency 440, filter cutoff 350, Q 1, pan 0), overwritten by the three
  assignments of the mount effect.
\<close>

fun mountValue :: "bool \<Rightarrow> param \<Rightarrow> real" where
  "mountValue muted MainGain = (if muted then 0 else 0.4)"
| "mountValue muted NoiseGain = 1"
| "mountValue muted FilterFrequency = 350"
| "mountValue muted FilterQ = 1"
| "mountValue muted DroneGain = 0.2"
| "mountValue muted Pan = 0"
| "mountValue muted (BankFrequency i) = 440"
| "mountValue muted AlarmGain = 0"
| "mountValue muted AlarmFrequency = 440"

subsection \<open>Reading a parameter\<close>

fun eventTime :: "event \<Rightarrow> real" where
  "eventTime (SetValueAtTime v t) = t"
| "eventTime (SetTargetAtTime v t tc) = t"
| "eventTime (LinearRampToValueAtTime v t) = t"
| "eventTime (ExponentialRampToValueAtTime v t) = t"

text \<open>
  A parameter's timeline: its events ordered by time, events with equal times in the
  order of their calls (\<open>sort_key\<close> is stable).
\<close>

definition timeline :: "param \<Rightarrow> engine \<Rightarrow> event list" where
  "timeline p st = sort_key eventTime (map snd (filter (\<lambda>c. fst c = p) (automation st)))"

text \<open>
  The value of a timeline at time \<open>t\<close>, as the Web Audio API defines it, the newest
  event first. An event that has not started is skipped, except a ramp, which takes the
  value from the event before it to its own by its end time. \<open>setValueAtTime\<close> holds
  its value; \<open>setTargetAtTime\<close> approaches its target exponentially from the value the
  timeline had when it started (and jumps to it when the time constant is 0). The source
  reads only oscillator frequencies, and it schedules no ramp on them.
\<close>

fun valueAt :: "real \<Rightarrow> event list \<Rightarrow> real \<Rightarrow> real" where
  "valueAt v0 [] t = v0"
| "valueAt v0 (SetValueAtTime v t0 # older) t =
     (if t < t0 then valueAt v0 older t else v)"
| "valueAt v0 (SetTargetAtTime target t0 tc # older) t =
     (if t < t0 then valueAt v0 older t
      else if tc = 0 then target
      else target + (valueAt v0 older t0 - target) * exp (- ((t - t0) / tc)))"
| "valueAt v0 (LinearRampToValueAtTime v t1 # older) t =
     (if t1 \<le> t then v
      else case older of
        [] \<Rightarrow> v0
      | e # _ \<Rightarrow>
          if t < eventTime e then valueAt v0 older t
          else valueAt v0 older (eventTime e) +
               (v - valueAt v0 older (eventTime e)) * ((t - eventTime e) / (t1 - eventTime e)))"
| "valueAt v0 (ExponentialRampToValueAtTime v t1 # older) t =
     (if t1 \<le> t then v
      else case older of
        [] \<Rightarrow> v0
      | e # _ \<Rightarrow>
          if t < eventTime e then valueAt v0 older t
          else valueAt v0 older (eventTime e) *
               (v / valueAt v0 older (eventTime e)) powr ((t - eventTime e) / (t1 - eventTime e)))"

definition paramValue :: "engine \<Rightarrow> param \<Rightarrow> real \<Rightarrow> real" where
  "paramValue st p t = valueAt (value0 st p) (rev (timeline p st)) t"

subsection \<open>The effects\<close>

text \<open>The mute effect (dependency \<open>isMuted\<close>).\<close>

definition muteEffect :: "real \<Rightarrow> engine \<Rightarrow> engine" where
  "muteEffect now st =
     (if built st
      then schedule [(MainGain, SetTargetAtTime (if isMuted (rendered st) then 0 else 0.4) now 0.1)] st
      else st)"

text \<open>The panning effect (dependency \<open>scrollPos\<close>).\<close>

definition panEffect :: "real \<Rightarrow> engine \<Rightarrow> engine" where
  "panEffect now st =
     (if built st
      then (let panValue = scrollPos (rendered st) / 50 - 1
            in schedule [(Pan, SetTargetAtTime panValue now 0.1)] st)
      else st)"

text \<open>
  The status effect (dependency \<open>status\<close>). Only the \<open>OVERRIDE\<close> branch returns a
  cleanup function.
\<close>

definition statusEffect :: "real \<Rightarrow> engine \<Rightarrow> engine" where
  "statusEffect now st =
     (if \<not> built st then st\<lparr>statusCleanup := None\<rparr>
      else if status (rendered st) = OVERRIDE
      then (let st1 = schedule [(AlarmGain, SetTargetAtTime 0.1 now 0.1)] st;
                (interval, st2) = setInterval AlarmSweep 1000 st1
            in st2\<lparr>statusCleanup := Some interval\<rparr>)
      else (schedule [(AlarmGain, SetTargetAtTime 0 now 0.2)] st)\<lparr>statusCleanup := None\<rparr>)"

definition statusCleanupRun :: "engine \<Rightarrow> engine" where
  "statusCleanupRun st =
     (case statusCleanup st of
        None \<Rightarrow> st
      | Some interval \<Rightarrow> clearInterval interval st)"

text \<open>The profile effect (dependency \<open>profile\<close>): the default transitions, then the switch.\<close>

definition defaultTransitions :: "real \<Rightarrow> (param \<times> event) list" where
  "defaultTransitions now =
     [(FilterQ, SetTargetAtTime 1 now 0.5),
      (NoiseGain, SetTargetAtTime 0.5 now 0.5),
      (DroneGain, SetTargetAtTime 0.2 now 0.5)]"

definition caseNatural :: "real \<Rightarrow> engine \<Rightarrow> engine" where
  "caseNatural now st =
     (let st1 = schedule
            [(FilterFrequency, SetTargetAtTime 400 now 0.5),
             (NoiseGain, SetTargetAtTime 0.6 now 0.5),
             (BankFrequency 0, SetTargetAtTime 120 now 0.5),
             (BankFrequency 1, SetTargetAtTime 180 now 0.5),
             (BankFrequency 2, SetTargetAtTime 60 now 0.5)]
            (st\<lparr>filterType := Lowpass, bank := (bank st)[0 := Sine, 1 := Sine, 2 := Sine]\<rparr>);
          (profileInterval, st2) = setInterval WindGust 2000 st1
      in st2\<lparr>profileCleanup := Some profileInterval\<rparr>)"

definition caseIndustrial :: "real \<Rightarrow> engine \<Rightarrow> engine" where
  "caseIndustrial now st =
     (let st1 = schedule
            [(FilterFrequency, SetTargetAtTime 200 now 0.5),
             (FilterQ, SetTargetAtTime 8 now 0.5),
             (NoiseGain, SetTargetAtTime 0.3 now 0.5),
             (BankFrequency 0, SetTargetAtTime 50 now 0.5),
             (BankFrequency 1, SetTargetAtTime 100 now 0.5),
             (BankFrequency 2, SetTargetAtTime 150 now 0.5)]
            (st\<lparr>filterType := Bandpass, bank := (bank st)[0 := Square, 1 := Triangle, 2 := Sine]\<rparr>);
          (profileInterval, st2) = setInterval MachinePulse 1000 st1
      in st2\<lparr>profileCleanup := Some profileInterval\<rparr>)"

definition caseVoid :: "real \<Rightarrow> engine \<Rightarrow> engine" where
  "caseVoid now st =
     (schedule
        [(FilterFrequency, SetTargetAtTime 60 now 0.5),
         (NoiseGain, SetTargetAtTime 0.1 now 0.5),
         (BankFrequency 0, SetTargetAtTime 32 now 0.5),
         (BankFrequency 1, SetTargetAtTime 48 now 0.5),
         (BankFrequency 2, SetTargetAtTime 24 now 0.5)]
        (st\<lparr>filterType := Lowpass, bank := (bank st)[0 := Sine, 1 := Sine, 2 := Sine]\<rparr>))
     \<lparr>profileCleanup := None\<rparr>"

definition caseElectronic :: "real \<Rightarrow> engine \<Rightarrow> engine" where
  "caseElectronic now st =
     (let st1 = schedule
            [(FilterFrequency, SetTargetAtTime 3000 now 0.5),
             (NoiseGain, SetTargetAtTime 0.4 now 0.5),
             (BankFrequency 0, SetTargetAtTime 440 now 0.5),
             (BankFrequency 1, SetTargetAtTime 880 now 0.5),
             (BankFrequency 2, SetTargetAtTime 1760 now 0.5)]
            (st\<lparr>filterType := Highpass, bank := (bank st)[0 := Sawtooth, 1 := Square, 2 := Sine]\<rparr>);
          (profileInterval, st2) = setInterval GlitchBlip 600 st1
      in st2\<lparr>profileCleanup := Some profileInterval\<rparr>)"

definition caseHostile :: "real \<Rightarrow> engine \<Rightarrow> engine" where
  "caseHostile now st =
     (let st1 = schedule
            [(FilterFrequency, SetTargetAtTime 1000 now 0.5),
             (FilterQ, SetTargetAtTime 4 now 0.5),
             (NoiseGain, SetTargetAtTime 0.8 now 0.5),
             (BankFrequency 0, SetTargetAtTime 40 now 0.5),
             (BankFrequency 1, SetTargetAtTime 43 now 0.5),
             (BankFrequency 2, SetTargetAtTime 21 now 0.5)]
            (st\<lparr>filterType := Notch, bank := (bank st)[0 := Sawtooth, 1 := Sawtooth, 2 := Square]\<rparr>);
          (profileInterval, st2) = setInterval DetuneJitter 50 st1
      in st2\<lparr>profileCleanup := Some profileInterval\<rparr>)"

text \<open>
  The switch has no \<open>default\<close> branch: for any other string \<open>profileInterval\<close> stays
  \<open>null\<close>. The early return of the guard yields no cleanup.
\<close>

definition profileEffect :: "real \<Rightarrow> engine \<Rightarrow> engine" where
  "profileEffect now st =
     (if \<not> built st \<or> length (bank st) < 3 then st\<lparr>profileCleanup := None\<rparr>
      else (let st1 = schedule (defaultTransitions now) st;
                p = profile (rendered st)
            in if p = ''Natural'' then caseNatural now st1
               else if p = ''Industrial'' then caseIndustrial now st1
               else if p = ''Void'' then caseVoid now st1
               else if p = ''Electronic'' then caseElectronic now st1
               else if p = ''Hostile'' then caseHostile now st1
               else st1\<lparr>profileCleanup := None\<rparr>))"

text \<open>
  The cleanup tests \<open>if (profileInterval)\<close>: an id of 0 would be falsy and not cleared.
  Interval ids are positive (\<open>mount\<close> starts them at 1).
\<close>

definition profileCleanupRun :: "engine \<Rightarrow> engine" where
  "profileCleanupRun st =
     (case profileCleanup st of
        None \<Rightarrow> st
      | Some profileInterval \<Rightarrow>
          if profileInterval \<noteq> 0 then clearInterval profileInterval st else st)"

subsection \<open>Mounting\<close>

text \<open>
  On mount the five effects run in the order they are declared: the graph is built
  (three sine oscillators in the bank, a sawtooth alarm oscillator, a filter of the
  default type), then the mute, panning, status and profile effects run on it.
\<close>

definition buildGraph :: "props \<Rightarrow> engine" where
  "buildGraph pr =
     \<lparr>rendered = pr, built = True, bank = [Sine, Sine, Sine], alarmOscType = Sawtooth,
      filterType = Lowpass, value0 = mountValue (isMuted pr), automation = [], timers = [],
      nextTimerId = 1, statusCleanup = None, profileCleanup = None\<rparr>"

definition mount :: "props \<Rightarrow> real \<Rightarrow> engine" where
  "mount pr now = profileEffect now (statusEffect now (panEffect now (muteEffect now (buildGraph pr))))"

subsection \<open>The control surface\<close>

text \<open>
  A control-surface call is a render with one prop changed. React runs an effect again
  only when its dependency changed; it then runs the cleanup the previous run returned
  and the effect itself.
\<close>

definition setMuted :: "bool \<Rightarrow> real \<Rightarrow> engine \<Rightarrow> engine" where
  "setMuted m now st =
     (if m = isMuted (rendered st) then st
      else muteEffect now (st\<lparr>rendered := (rendered st)\<lparr>isMuted := m\<rparr>\<rparr>))"

definition setScrollPosition :: "real \<Rightarrow> real \<Rightarrow> engine \<Rightarrow> engine" where
  "setScrollPosition p now st =
     (if p = scrollPos (rendered st) then st
      else panEffect now (st\<lparr>rendered := (rendered st)\<lparr>scrollPos := p\<rparr>\<rparr>))"

definition setStatus :: "BotLockStatus \<Rightarrow> real \<Rightarrow> engine \<Rightarrow> engine" where
  "setStatus s now st =
     (if s = status (rendered st) then st
      else statusEffect now (statusCleanupRun (st\<lparr>rendered := (rendered st)\<lparr>status := s\<rparr>\<rparr>)))"

definition setProfile :: "string \<Rightarrow> real \<Rightarrow> engine \<Rightarrow> engine" where
  "setProfile p now st =
     (if p = profile (rendered st) then st
      else profileEffect now (profileCleanupRun (st\<lparr>rendered := (rendered st)\<lparr>profile := p\<rparr>\<rparr>)))"

subsection \<open>The interval callbacks\<close>

text \<open>
  A callback runs at \<open>ctx.currentTime = t\<close>; \<open>rnd k\<close> is what its \<open>k\<close>-th call of
  \<open>Math.random()\<close> returns. A read of \<open>frequency.value\<close> is the parameter's value at
  \<open>t\<close>.
\<close>

definition alarmSweep :: "real \<Rightarrow> engine \<Rightarrow> engine" where
  "alarmSweep time st =
     (if \<not> built st then st
      else schedule
        [(AlarmFrequency, SetValueAtTime 880 time),
         (AlarmFrequency, ExponentialRampToValueAtTime 440 (time + 0.4))] st)"

definition windGust :: "real \<Rightarrow> (nat \<Rightarrow> real) \<Rightarrow> engine \<Rightarrow> engine" where
  "windGust t rnd st =
     schedule [(FilterFrequency, ExponentialRampToValueAtTime (200 + rnd 0 * 800) (t + 1.5))] st"

definition machinePulse :: "real \<Rightarrow> engine \<Rightarrow> engine" where
  "machinePulse t st =
     schedule
       [(DroneGain, SetValueAtTime 0.15 t),
        (DroneGain, LinearRampToValueAtTime 0.25 (t + 0.1)),
        (DroneGain, LinearRampToValueAtTime 0.15 (t + 0.5))] st"

text \<open>
  \<open>bank[Math.floor(Math.random() * 3)]\<close>: outside the bank the read of \<open>.frequency\<close>
  on \<open>undefined\<close> throws and the callback ends without a call made.
\<close>

definition glitchBlip :: "real \<Rightarrow> (nat \<Rightarrow> real) \<Rightarrow> engine \<Rightarrow> engine" where
  "glitchBlip t rnd st =
     (let k = \<lfloor>rnd 0 * 3\<rfloor>
      in if k < 0 \<or> int (length (bank st)) \<le> k then st
         else (let targetOsc = BankFrequency (nat k);
                   originalFreq = paramValue st targetOsc t
               in schedule
                    [(targetOsc, SetValueAtTime (100 + rnd 1 * 5000) t),
                     (targetOsc, SetValueAtTime originalFreq (t + 0.05))] st))"

definition jitterOsc :: "real \<Rightarrow> (nat \<Rightarrow> real) \<Rightarrow> nat \<Rightarrow> engine \<Rightarrow> engine" where
  "jitterOsc t rnd i st =
     (let current = paramValue st (BankFrequency i) t
      in schedule [(BankFrequency i, SetTargetAtTime (current + (rnd i - 0.5) * 20) t 0.05)] st)"

definition detuneJitter :: "real \<Rightarrow> (nat \<Rightarrow> real) \<Rightarrow> engine \<Rightarrow> engine" where
  "detuneJitter t rnd st = fold (jitterOsc t rnd) [0 ..< length (bank st)] st"

fun runCallback :: "routine \<Rightarrow> real \<Rightarrow> (nat \<Rightarrow> real) \<Rightarrow> engine \<Rightarrow> engine" where
  "runCallback AlarmSweep t rnd st = alarmSweep t st"
| "runCallback WindGust t rnd st = windGust t rnd st"
| "runCallback MachinePulse t rnd st = machinePulse t st"
| "runCallback GlitchBlip t rnd st = glitchBlip t rnd st"
| "runCallback DetuneJitter t rnd st = detuneJitter t rnd st"

text \<open>The interval with id \<open>i\<close> fires, if it is live.\<close>

definition fire :: "nat \<Rightarrow> real \<Rightarrow> (nat \<Rightarrow> real) \<Rightarrow> engine \<Rightarrow> engine" where
  "fire i t rnd st =
     (case find (\<lambda>tm. tid tm = i) (timers st) of
        None \<Rightarrow> st
      | Some tm \<Rightarrow> runCallback (callback tm) t rnd st)"

subsection \<open>Histories\<close>

text \<open>
  What can happen to a mounted component: a control-surface call or the firing of an
  interval, each at its \<open>ctx.currentTime\<close>.
\<close>

datatype action =
    SetProfile string
  | SetStatus BotLockStatus
  | SetScrollPosition real
  | SetMuted bool
  | Fire nat "nat \<Rightarrow> real"

fun step :: "action \<times> real \<Rightarrow> engine \<Rightarrow> engine" where
  "step (SetProfile p, now) st = setProfile p now st"
| "step (SetStatus s, now) st = setStatus s now st"
| "step (SetScrollPosition p, now) st = setScrollPosition p now st"
| "step (SetMuted m, now) st = setMuted m now st"
| "step (Fire i rnd, now) st = fire i now rnd st"

definition run :: "(action \<times> real) list \<Rightarrow> engine \<Rightarrow> engine" where
  "run acts st = fold step acts st"

subsection \<open>Observations\<close>

definition profileTimers :: "engine \<Rightarrow> timer list" where
  "profileTimers st = filter (\<lambda>tm. callback tm \<noteq> AlarmSweep) (timers st)"

definition statusTimers :: "engine \<Rightarrow> timer list" where
  "statusTimers st = filter (\<lambda>tm. callback tm = AlarmSweep) (timers st)"

text \<open>The calls a step added to the automation log.\<close>

definition scheduledBy :: "engine \<Rightarrow> engine \<Rightarrow> (param \<times> event) list" where
  "scheduledBy st st' = drop (length (automation st)) (automation st')"

text \<open>
  The target a parameter was last sent toward by \<open>setTargetAtTime\<close>: where it settles
  when nothing else is scheduled after.
\<close>

fun targetOf :: "event \<Rightarrow> real option" where
  "targetOf (SetTargetAtTime target t tc) = Some target"
| "targetOf (SetValueAtTime v t) = None"
| "targetOf (LinearRampToValueAtTime v t) = None"
| "targetOf (ExponentialRampToValueAtTime v t) = None"

fun lastTargetIn :: "param \<Rightarrow> (param \<times> event) list \<Rightarrow> real option" where
  "lastTargetIn p [] = None"
| "lastTargetIn p (c # cs) =
     (case lastTargetIn p cs of
        Some v \<Rightarrow> Some v
      | None \<Rightarrow> if fst c = p then targetOf (snd c) else None)"

definition lastTarget :: "param \<Rightarrow> engine \<Rightarrow> real option" where
  "lastTarget p st = lastTargetIn p (automation st)"

text \<open>
  A smooth call: a glide to a target with a positive time constant, or a ramp. A
  \<open>setValueAtTime\<close> writes its value at once.
\<close>

fun smooth :: "event \<Rightarrow> bool" where
  "smooth (SetValueAtTime v t) = False"
| "smooth (SetTargetAtTime target t tc) = (0 < tc)"
| "smooth (LinearRampToValueAtTime v t) = True"
| "smooth (ExponentialRampToValueAtTime v t) = True"

definition allSmooth :: "(param \<times> event) list \<Rightarrow> bool" where
  "allSmooth calls = list_all (\<lambda>c. smooth (snd c)) calls"

text \<open>The parameters that interval callbacks schedule on.\<close>

fun tickParam :: "param \<Rightarrow> bool" where
  "tickParam AlarmFrequency = True"
| "tickParam FilterFrequency = True"
| "tickParam DroneGain = True"
| "tickParam (BankFrequency i) = True"
| "tickParam MainGain = False"
| "tickParam NoiseGain = False"
| "tickParam FilterQ = False"
| "tickParam Pan = False"
| "tickParam AlarmGain = False"

text \<open>The interval each case of the switch installs, with its period in ms.\<close>

definition routineOf :: "string \<Rightarrow> (routine \<times> nat) option" where
  "routineOf p =
     (if p = ''Natural'' then Some (WindGust, 2000)
      else if p = ''Industrial'' then Some (MachinePulse, 1000)
      else if p = ''Void'' then None
      else if p = ''Electronic'' then Some (GlitchBlip, 600)
      else if p = ''Hostile'' then Some (DetuneJitter, 50)
      else None)"

definition liveRoutines :: "timer list \<Rightarrow> (routine \<times> nat) list" where
  "liveRoutines tms = map (\<lambda>tm. (callback tm, period tm)) tms"

text \<open>
  What holds of every state a mounted component can be in: the refs are filled, interval
  ids are positive, distinct and below the next one, the live intervals of each axis are what the
  props of the last render call for, each is the one its effect's cleanup will clear,
  and master gain, pan and alarm gain were last sent toward what the props call for.
\<close>

definition consistent :: "engine \<Rightarrow> bool" where
  "consistent st =
     (built st \<and> length (bank st) = 3 \<and> 0 < nextTimerId st \<and>
      list_all (\<lambda>tm. 0 < tid tm \<and> tid tm < nextTimerId st) (timers st) \<and>
      distinct (map tid (timers st)) \<and>
      liveRoutines (profileTimers st) = (case routineOf (profile (rendered st)) of None \<Rightarrow> [] | Some r \<Rightarrow> [r]) \<and>
      map tid (profileTimers st) = (case profileCleanup st of None \<Rightarrow> [] | Some i \<Rightarrow> [i]) \<and>
      liveRoutines (statusTimers st) = (if status (rendered st) = OVERRIDE then [(AlarmSweep, 1000)] else []) \<and>
      map tid (statusTimers st) = (case statusCleanup st of None \<Rightarrow> [] | Some i \<Rightarrow> [i]) \<and>
      lastTarget MainGain st = Some (if isMuted (rendered st) then 0 else 0.4) \<and>
      lastTarget Pan st = Some (scrollPos (rendered st) / 50 - 1) \<and>
      lastTarget AlarmGain st = Some (if status (rendered st) = OVERRIDE then 0.1 else 0))"

subsection \<open>The profile table of the specification\<close>

text \<open>
  Section 4.5 of the specification gives the profile targets as a table: filter type and
  cutoff (with a resonance where one is named), noise gain, the waveform and frequency
  of bank slots 0, 1 and 2, and the period of the periodic routine in ms, if any. This
  is the table as the specification has it, not read off the code.
\<close>

record profileRow =
  rowFilter :: BiquadFilterType
  rowCutoff :: real
  rowQ :: "real option"
  rowNoiseGain :: real
  rowBank :: "(OscillatorType \<times> real) list"
  rowPeriod :: "nat option"

definition specTable :: "string \<Rightarrow> profileRow option" where
  "specTable p =
     (if p = ''Natural'' then Some
        \<lparr>rowFilter = Lowpass, rowCutoff = 400, rowQ = None, rowNoiseGain = 0.6,
         rowBank = [(Sine, 120), (Sine, 180), (Sine, 60)], rowPeriod = Some 2000\<rparr>
      else if p = ''Industrial'' then Some
        \<lparr>rowFilter = Bandpass, rowCutoff = 200, rowQ = Some 8, rowNoiseGain = 0.3,
         rowBank = [(Square, 50), (Triangle, 100), (Sine, 150)], rowPeriod = Some 1000\<rparr>
      else if p = ''Void'' then Some
        \<lparr>rowFilter = Lowpass, rowCutoff = 60, rowQ = None, rowNoiseGain = 0.1,
         rowBank = [(Sine, 32), (Sine, 48), (Sine, 24)], rowPeriod = None\<rparr>
      else if p = ''Electronic'' then Some
        \<lparr>rowFilter = Highpass, rowCutoff = 3000, rowQ = None, rowNoiseGain = 0.4,
         rowBank = [(Sawtooth, 440), (Square, 880), (Sine, 1760)], rowPeriod = Some 600\<rparr>
      else if p = ''Hostile'' then Some
        \<lparr>rowFilter = Notch, rowCutoff = 1000, rowQ = Some 4, rowNoiseGain = 0.8,
         rowBank = [(Sawtooth, 40), (Sawtooth, 43), (Square, 21)], rowPeriod = Some 50\<rparr>
      else None)"

text \<open>
  The targets of a row as smoothed transitions with the half-second time constant:
  cutoff, resonance if named, noise gain, then the frequency of each bank slot.
\<close>

definition tableTransitions :: "real \<Rightarrow> profileRow \<Rightarrow> (param \<times> event) list" where
  "tableTransitions now row =
     (FilterFrequency, SetTargetAtTime (rowCutoff row) now 0.5) #
     (case rowQ row of None \<Rightarrow> [] | Some q \<Rightarrow> [(FilterQ, SetTargetAtTime q now 0.5)]) @
     (NoiseGain, SetTargetAtTime (rowNoiseGain row) now 0.5) #
     map (\<lambda>(i, wf). (BankFrequency i, SetTargetAtTime (snd wf) now 0.5)) (enumerate 0 (rowBank row))"

subsection \<open>The pan of the specification\<close>

text \<open>
  Section 4.3 of the specification: the pan for scroll position \<open>p\<close> is \<open>p/50 - 1\<close>
  clamped to \<open>[-1, 1]\<close>.
\<close>

definition specPan :: "real \<Rightarrow> real" where
  "specPan p = max (- 1) (min 1 (p / 50 - 1))"

subsection \<open>Sample inputs\<close>

text \<open>The props of the specification's first scenario.\<close>

definition electronicProps :: props where
  "electronicProps = \<lparr>profile = ''Electronic'', status = UNLOCKED, scrollPos = 75, isMuted = False\<rparr>"

text \<open>A call that is rejected once with a rate-limit error and then resolves.\<close>

definition flaky :: "nat \<Rightarrow> js_error + nat" where
  "flaky k = (if k = 0 then Inl \<lparr>message = Some ''HTTP 429'', errName = ''ApiError''\<rparr> else Inr 7)"

text \<open>The props of the specification's second scenario.\<close>

definition hostileProps :: props where
  "hostileProps = \<lparr>profile = ''Hostile'', status = OVERRIDE, scrollPos = 0, isMuted = False\<rparr>"

text \<open>A source of random draws that always answers 0.\<close>

definition zeroDraws :: "nat \<Rightarrow> real" where
  "zeroDraws k = 0"

text \<open>Draws that pick bank slot 1 and the blip frequency 1100.\<close>

definition glitchDraws :: "nat \<Rightarrow> real" where
  "glitchDraws k = (if k = 0 then 0.5 else 0.2)"

section \<open>The profile effect in normal form\<close>

lemma bank3_update:
  "length xs = 3 \<Longrightarrow> xs[0 := a, Suc 0 := b, Suc (Suc 0) := c] = [a, b, c]"
  by (cases xs; cases "tl xs"; cases "tl (tl xs)") auto

lemma specTable_cases:
  assumes "specTable p = Some row"
  obtains "p = ''Natural''" | "p = ''Industrial''" | "p = ''Void''" | "p = ''Electronic''" | "p = ''Hostile''"
  using assms by (auto simp: specTable_def split: if_splits)

lemma specTable_None:
  "specTable p = None \<longleftrightarrow> p \<noteq> ''Natural'' \<and> p \<noteq> ''Industrial'' \<and> p \<noteq> ''Void'' \<and> p \<noteq> ''Electronic'' \<and> p \<noteq> ''Hostile''"
  by (simp add: specTable_def)

lemma profileEffect_unrecognised:
  assumes "built st" "length (bank st) = 3" "specTable (profile (rendered st)) = None"
  shows "profileEffect now st =
           st\<lparr>automation := automation st @ defaultTransitions now, profileCleanup := None\<rparr>"
  using assms
  by (simp add: profileEffect_def specTable_None schedule_def Let_def)

lemma profileEffect_row:
  assumes "built st" "length (bank st) = 3" "specTable (profile (rendered st)) = Some row"
  shows "profileEffect now st =
           st\<lparr>automation := automation st @ defaultTransitions now @ tableTransitions now row,
              filterType := rowFilter row,
              bank := map fst (rowBank row),
              timers := timers st @
                (case routineOf (profile (rendered st)) of None \<Rightarrow> []
                 | Some r \<Rightarrow> [\<lparr>tid = nextTimerId st, callback = fst r, period = snd r\<rparr>]),
              nextTimerId := (case routineOf (profile (rendered st)) of None \<Rightarrow> nextTimerId st
                 | Some r \<Rightarrow> Suc (nextTimerId st)),
              profileCleanup := map_option (\<lambda>r. nextTimerId st) (routineOf (profile (rendered st)))\<rparr>"
proof (rule specTable_cases [OF assms(3)])
  assume p: "profile (rendered st) = ''Natural''"
  with assms show ?thesis
    by (clarsimp simp add: profileEffect_def specTable_def routineOf_def tableTransitions_def
        bank3_update caseNatural_def schedule_def setInterval_def Let_def numeral_2_eq_2)
next
  assume p: "profile (rendered st) = ''Industrial''"
  with assms show ?thesis
    by (clarsimp simp add: profileEffect_def specTable_def routineOf_def tableTransitions_def
        bank3_update caseIndustrial_def schedule_def setInterval_def Let_def numeral_2_eq_2)
next
  assume p: "profile (rendered st) = ''Void''"
  with assms show ?thesis
    by (clarsimp simp add: profileEffect_def specTable_def routineOf_def tableTransitions_def
        bank3_update caseVoid_def schedule_def setInterval_def Let_def numeral_2_eq_2)
next
  assume p: "profile (rendered st) = ''Electronic''"
  with assms show ?thesis
    by (clarsimp simp add: profileEffect_def specTable_def routineOf_def tableTransitions_def
        bank3_update caseElectronic_def schedule_def setInterval_def Let_def numeral_2_eq_2)
next
  assume p: "profile (rendered st) = ''Hostile''"
  with assms show ?thesis
    by (clarsimp simp add: profileEffect_def specTable_def routineOf_def tableTransitions_def
        bank3_update caseHostile_def schedule_def setInterval_def Let_def numeral_2_eq_2)
qed

section \<open>What the interval callbacks leave alone\<close>

lemma schedule_schedule: "schedule c2 (schedule c1 st) = schedule (c1 @ c2) st"
  by (simp add: schedule_def)

lemma schedule_Nil: "schedule [] st = st"
  by (simp add: schedule_def)

lemma lastTargetIn_append:
  "lastTargetIn p (xs @ ys) =
     (case lastTargetIn p ys of Some v \<Rightarrow> Some v | None \<Rightarrow> lastTargetIn p xs)"
  by (induction xs) (auto split: option.splits)

lemma lastTargetIn_absent: "p \<notin> fst ` set calls \<Longrightarrow> lastTargetIn p calls = None"
  by (induction calls) auto

lemma lastTarget_schedule_absent:
  "p \<notin> fst ` set calls \<Longrightarrow> lastTarget p (schedule calls st) = lastTarget p st"
  by (simp add: lastTarget_def schedule_def lastTargetIn_append lastTargetIn_absent)

lemma fold_jitterOsc_schedule:
  "\<exists>calls. fold (jitterOsc t rnd) xs st = schedule calls st \<and> fst ` set calls \<subseteq> range BankFrequency"
proof (induction xs arbitrary: st)
  case Nil
  show ?case using schedule_Nil [of st] by (intro exI [of _ "[]"]) simp
next
  case (Cons x xs)
  obtain c where c: "jitterOsc t rnd x st = schedule c st" "fst ` set c \<subseteq> range BankFrequency"
    by (simp add: jitterOsc_def Let_def)
  obtain calls where "fold (jitterOsc t rnd) xs (schedule c st) = schedule calls (schedule c st)"
     "fst ` set calls \<subseteq> range BankFrequency"
    using Cons.IH by blast
  then show ?case using c by (intro exI [of _ "c @ calls"]) (auto simp: schedule_schedule)
qed

lemma runCallback_schedule:
  "\<exists>calls. runCallback r t rnd st = schedule calls st \<and> fst ` set calls \<subseteq> Collect tickParam"
proof (cases r)
  case AlarmSweep
  show ?thesis
  proof (cases "built st")
    case True
    with AlarmSweep show ?thesis
      by (simp add: alarmSweep_def) (rule exI, rule conjI, rule refl, simp)
  next
    case False
    with AlarmSweep show ?thesis by (intro exI [of _ "[]"]) (simp add: alarmSweep_def schedule_Nil)
  qed
next
  case WindGust
  then show ?thesis
    by (simp add: windGust_def) (rule exI, rule conjI, rule refl, simp)
next
  case MachinePulse
  then show ?thesis
    by (simp add: machinePulse_def) (rule exI, rule conjI, rule refl, simp)
next
  case GlitchBlip
  show ?thesis
  proof (cases "\<lfloor>rnd 0 * 3\<rfloor> < 0 \<or> int (length (bank st)) \<le> \<lfloor>rnd 0 * 3\<rfloor>")
    case True
    with GlitchBlip show ?thesis
      by (intro exI [of _ "[]"]) (simp add: glitchBlip_def schedule_Nil Let_def)
  next
    case False
    with GlitchBlip show ?thesis
      by (simp add: glitchBlip_def Let_def) (rule exI, rule conjI, rule refl, simp)
  qed
next
  case DetuneJitter
  obtain calls where "fold (jitterOsc t rnd) [0 ..< length (bank st)] st = schedule calls st"
    "fst ` set calls \<subseteq> range BankFrequency"
    using fold_jitterOsc_schedule by blast
  with DetuneJitter show ?thesis
    by (intro exI [of _ calls]) (auto simp: detuneJitter_def)
qed

lemma fire_schedule:
  "\<exists>calls. fire i t rnd st = schedule calls st \<and> fst ` set calls \<subseteq> Collect tickParam"
proof (cases "find (\<lambda>tm. tid tm = i) (timers st)")
  case None
  then show ?thesis by (intro exI [of _ "[]"]) (simp add: fire_def schedule_Nil)
next
  case (Some tm)
  then show ?thesis using runCallback_schedule [of "callback tm" t rnd st] by (simp add: fire_def)
qed

lemma consistent_schedule:
  assumes "MainGain \<notin> fst ` set calls" "Pan \<notin> fst ` set calls" "AlarmGain \<notin> fst ` set calls"
  shows "consistent (schedule calls st) = consistent st"
proof -
  have "lastTarget MainGain (schedule calls st) = lastTarget MainGain st"
    "lastTarget Pan (schedule calls st) = lastTarget Pan st"
    "lastTarget AlarmGain (schedule calls st) = lastTarget AlarmGain st"
    using assms by (simp_all add: lastTarget_schedule_absent)
  then show ?thesis
    by (simp add: consistent_def profileTimers_def statusTimers_def) (simp add: schedule_def)
qed

lemma consistent_fire: "consistent st \<Longrightarrow> consistent (fire i t rnd st)"
proof -
  assume c: "consistent st"
  obtain calls where f: "fire i t rnd st = schedule calls st" "fst ` set calls \<subseteq> Collect tickParam"
    using fire_schedule by blast
  have "MainGain \<notin> fst ` set calls" "Pan \<notin> fst ` set calls" "AlarmGain \<notin> fst ` set calls"
    using f(2) by auto
  then show ?thesis using c f(1) by (simp add: consistent_schedule)
qed

section \<open>Cleanups\<close>

lemma consistent_setMuted: "consistent st \<Longrightarrow> consistent (setMuted m now st)"
  by (auto simp add: consistent_def setMuted_def muteEffect_def schedule_def profileTimers_def statusTimers_def
      lastTarget_def lastTargetIn_append)

lemma consistent_setScrollPosition: "consistent st \<Longrightarrow> consistent (setScrollPosition p now st)"
  by (auto simp add: consistent_def setScrollPosition_def panEffect_def schedule_def profileTimers_def statusTimers_def
      lastTarget_def lastTargetIn_append Let_def)

lemma filter_cleared:
  assumes "distinct (map tid tms)" "map tid (filter P tms) = [i]"
  shows "filter P (filter (\<lambda>tm. tid tm \<noteq> i) tms) = []"
    and "filter (\<lambda>tm. \<not> P tm) (filter (\<lambda>tm. tid tm \<noteq> i) tms) = filter (\<lambda>tm. \<not> P tm) tms"
proof -
  obtain tm where tm: "filter P tms = [tm]" "tid tm = i"
    using assms(2) by (cases "filter P tms") auto
  have "tm \<in> set (filter P tms)"
    using tm(1) by simp
  then have mem: "tm \<in> set tms" "P tm"
    by simp_all
  have inj: "inj_on tid (set tms)"
    using assms(1) by (simp add: distinct_map)
  have only: "x = tm" if "x \<in> set tms" "tid x = i" for x
    using inj mem(1) that tm(2) by (auto dest: inj_onD)
  have hit: "tid x = i" if "x \<in> set tms" "P x" for x
  proof -
    have "x \<in> set (filter P tms)" using that by simp
    then show ?thesis using tm by simp
  qed
  show "filter P (filter (\<lambda>tm. tid tm \<noteq> i) tms) = []"
    using hit by (auto simp: filter_empty_conv)
  show "filter (\<lambda>tm. \<not> P tm) (filter (\<lambda>tm. tid tm \<noteq> i) tms) = filter (\<lambda>tm. \<not> P tm) tms"
    using only mem(2) by (auto intro!: filter_cong)
qed

lemma statusCleanupRun_timers:
  assumes "consistent st"
  shows "statusTimers (statusCleanupRun (st\<lparr>rendered := r\<rparr>)) = []"
    and "profileTimers (statusCleanupRun (st\<lparr>rendered := r\<rparr>)) = profileTimers st"
proof -
  have d: "distinct (map tid (timers st))"
    and m: "map tid (filter (\<lambda>tm. callback tm = AlarmSweep) (timers st)) =
              (case statusCleanup st of None \<Rightarrow> [] | Some i \<Rightarrow> [i])"
    using assms by (simp_all add: consistent_def statusTimers_def)
  show "statusTimers (statusCleanupRun (st\<lparr>rendered := r\<rparr>)) = []"
    using filter_cleared(1) [OF d, of "\<lambda>tm. callback tm = AlarmSweep"] m
    by (simp add: statusCleanupRun_def statusTimers_def clearInterval_def split: option.splits)
  show "profileTimers (statusCleanupRun (st\<lparr>rendered := r\<rparr>)) = profileTimers st"
    using filter_cleared(2) [OF d, of "\<lambda>tm. callback tm = AlarmSweep"] m
    by (simp add: statusCleanupRun_def profileTimers_def clearInterval_def split: option.splits)
qed

lemma profileCleanupRun_timers:
  assumes "consistent st"
  shows "profileTimers (profileCleanupRun (st\<lparr>rendered := r\<rparr>)) = []"
    and "statusTimers (profileCleanupRun (st\<lparr>rendered := r\<rparr>)) = statusTimers st"
proof -
  have d: "distinct (map tid (timers st))"
    and m: "map tid (filter (\<lambda>tm. callback tm \<noteq> AlarmSweep) (timers st)) =
              (case profileCleanup st of None \<Rightarrow> [] | Some i \<Rightarrow> [i])"
    and pos: "list_all (\<lambda>tm. 0 < tid tm \<and> tid tm < nextTimerId st) (timers st)"
    using assms by (simp_all add: consistent_def profileTimers_def)
  have nz: "i \<noteq> 0" if "profileCleanup st = Some i" for i
  proof -
    from that m obtain tm where "filter (\<lambda>tm. callback tm \<noteq> AlarmSweep) (timers st) = [tm]" "tid tm = i"
      by (cases "filter (\<lambda>tm. callback tm \<noteq> AlarmSweep) (timers st)") auto
    then have "tm \<in> set (filter (\<lambda>tm. callback tm \<noteq> AlarmSweep) (timers st))" by simp
    then have "tm \<in> set (timers st)" by simp
    with pos have "0 < tid tm" by (simp add: list_all_iff)
    with \<open>tid tm = i\<close> show ?thesis by simp
  qed
  show "profileTimers (profileCleanupRun (st\<lparr>rendered := r\<rparr>)) = []"
    using filter_cleared(1) [OF d, of "\<lambda>tm. callback tm \<noteq> AlarmSweep"] m nz
    by (simp add: profileCleanupRun_def profileTimers_def clearInterval_def split: option.splits)
  show "statusTimers (profileCleanupRun (st\<lparr>rendered := r\<rparr>)) = statusTimers st"
    using filter_cleared(2) [OF d, of "\<lambda>tm. callback tm \<noteq> AlarmSweep"] m nz
    by (simp add: profileCleanupRun_def statusTimers_def clearInterval_def split: option.splits)
qed

text \<open>A cleanup only removes intervals and touches nothing else.\<close>

lemma statusCleanupRun_frame:
  "\<exists>Q. statusCleanupRun st = st\<lparr>timers := filter Q (timers st)\<rparr>"
proof (cases "statusCleanup st")
  case None
  then have "statusCleanupRun st = st\<lparr>timers := filter (\<lambda>tm. True) (timers st)\<rparr>"
    by (simp add: statusCleanupRun_def)
  then show ?thesis by blast
next
  case (Some i)
  then show ?thesis by (auto simp: statusCleanupRun_def clearInterval_def)
qed

lemma profileCleanupRun_frame:
  "\<exists>Q. profileCleanupRun st = st\<lparr>timers := filter Q (timers st)\<rparr>"
proof (cases "profileCleanup st")
  case None
  then have "profileCleanupRun st = st\<lparr>timers := filter (\<lambda>tm. True) (timers st)\<rparr>"
    by (simp add: profileCleanupRun_def)
  then show ?thesis by blast
next
  case (Some i)
  show ?thesis
  proof (cases "i = 0")
    case True
    with Some have "profileCleanupRun st = st\<lparr>timers := filter (\<lambda>tm. True) (timers st)\<rparr>"
      by (simp add: profileCleanupRun_def)
    then show ?thesis by blast
  next
    case False
    with Some show ?thesis by (auto simp: profileCleanupRun_def clearInterval_def)
  qed
qed

section \<open>Reachable states are consistent\<close>

lemma consistent_setStatus:
  assumes c: "consistent st"
  shows "consistent (setStatus s now st)"
proof (cases "s = status (rendered st)")
  case True
  then show ?thesis using c by (simp add: setStatus_def)
next
  case False
  define st1 where "st1 = st\<lparr>rendered := (rendered st)\<lparr>status := s\<rparr>\<rparr>"
  define st2 where "st2 = statusCleanupRun st1"
  obtain Q where Q: "st2 = st1\<lparr>timers := filter Q (timers st1)\<rparr>"
    using statusCleanupRun_frame [of st1] by (auto simp: st2_def)
  have s2: "filter (\<lambda>tm. callback tm = AlarmSweep) (timers st2) = []"
    and p2: "filter (\<lambda>tm. callback tm \<noteq> AlarmSweep) (timers st2) = profileTimers st"
    using statusCleanupRun_timers [OF c, of "(rendered st)\<lparr>status := s\<rparr>"]
    by (simp_all add: st2_def st1_def statusTimers_def profileTimers_def)
  have ids: "list_all (\<lambda>tm. 0 < tid tm \<and> tid tm < nextTimerId st) (timers st2)"
    and dist: "distinct (map tid (timers st2))"
    using c by (simp_all add: Q st1_def consistent_def list_all_iff distinct_map_filter)
  have fresh: "nextTimerId st \<notin> tid ` set (timers st2)"
    using ids by (auto simp: list_all_iff)
  have rest: "built st2" "length (bank st2) = 3" "nextTimerId st2 = nextTimerId st"
    "profileCleanup st2 = profileCleanup st" "rendered st2 = (rendered st)\<lparr>status := s\<rparr>"
    "automation st2 = automation st" "0 < nextTimerId st"
    using c by (simp_all add: Q st1_def consistent_def)
  have old: "liveRoutines (profileTimers st) = (case routineOf (profile (rendered st)) of None \<Rightarrow> [] | Some r \<Rightarrow> [r])"
    "map tid (profileTimers st) = (case profileCleanup st of None \<Rightarrow> [] | Some i \<Rightarrow> [i])"
    "lastTarget MainGain st = Some (if isMuted (rendered st) then 0 else 0.4)"
    "lastTarget Pan st = Some (scrollPos (rendered st) / 50 - 1)"
    using c by (simp_all add: consistent_def)
  have "consistent (statusEffect now st2)"
    using s2 p2 ids dist fresh rest old
    by (auto simp add: consistent_def statusEffect_def schedule_def setInterval_def Let_def
        profileTimers_def statusTimers_def liveRoutines_def lastTarget_def lastTargetIn_append
        list_all_iff)
  then show ?thesis using False by (simp add: setStatus_def st2_def st1_def)
qed

lemma profile_calls_params:
  "p \<in> fst ` set (defaultTransitions now @ tableTransitions now row) \<Longrightarrow>
     p \<noteq> MainGain \<and> p \<noteq> Pan \<and> p \<noteq> AlarmGain \<and> p \<noteq> AlarmFrequency"
  by (auto simp: defaultTransitions_def tableTransitions_def split: option.splits)

lemma default_calls_params:
  "p \<in> fst ` set (defaultTransitions now) \<Longrightarrow>
     p \<noteq> MainGain \<and> p \<noteq> Pan \<and> p \<noteq> AlarmGain \<and> p \<noteq> AlarmFrequency"
  by (auto simp: defaultTransitions_def)

lemma routineOf_unrecognised: "specTable p = None \<Longrightarrow> routineOf p = None"
  by (simp add: specTable_None routineOf_def)

lemma specTable_bank_length: "specTable p = Some row \<Longrightarrow> length (rowBank row) = 3"
  by (auto simp: specTable_def split: if_splits)

lemma profileEffect_consistent:
  assumes b: "built st2" "length (bank st2) = 3" "0 < nextTimerId st2"
    and ids: "list_all (\<lambda>tm. 0 < tid tm \<and> tid tm < nextTimerId st2) (timers st2)"
    and dist: "distinct (map tid (timers st2))"
    and p2: "profileTimers st2 = []"
    and s2: "liveRoutines (statusTimers st2) = (if status (rendered st2) = OVERRIDE then [(AlarmSweep, 1000)] else [])"
       "map tid (statusTimers st2) = (case statusCleanup st2 of None \<Rightarrow> [] | Some i \<Rightarrow> [i])"
    and lt: "lastTarget MainGain st2 = Some (if isMuted (rendered st2) then 0 else 0.4)"
       "lastTarget Pan st2 = Some (scrollPos (rendered st2) / 50 - 1)"
       "lastTarget AlarmGain st2 = Some (if status (rendered st2) = OVERRIDE then 0.1 else 0)"
  shows "consistent (profileEffect now st2)"
proof -
  have fresh: "nextTimerId st2 \<notin> tid ` set (timers st2)"
    using ids by (auto simp: list_all_iff)
  have p2': "filter (\<lambda>tm. callback tm \<noteq> AlarmSweep) (timers st2) = []"
    using p2 by (simp add: profileTimers_def)
  show ?thesis
  proof (cases "specTable (profile (rendered st2))")
    case None
    have keep: "lastTargetIn q (defaultTransitions now) = None"
      if "q = MainGain \<or> q = Pan \<or> q = AlarmGain" for q
      using that default_calls_params [of q now] by (intro lastTargetIn_absent) blast
    show ?thesis
      using b ids dist p2' s2 lt keep routineOf_unrecognised [OF None]
      by (simp add: profileEffect_unrecognised [OF b(1,2) None] consistent_def
          profileTimers_def statusTimers_def liveRoutines_def lastTarget_def lastTargetIn_append)
  next
    case (Some row)
    have keep: "lastTargetIn q (defaultTransitions now @ tableTransitions now row) = None"
      if "q = MainGain \<or> q = Pan \<or> q = AlarmGain" for q
      using that profile_calls_params [of q now row] by (intro lastTargetIn_absent) blast
    have ne: "fst r \<noteq> AlarmSweep" if "routineOf (profile (rendered st2)) = Some r" for r
      using that by (auto simp: routineOf_def split: if_splits)
    show ?thesis
      using b ids dist fresh p2' s2 lt keep ne specTable_bank_length [OF Some]
      by (auto simp add: profileEffect_row [OF b(1,2) Some] consistent_def
          profileTimers_def statusTimers_def liveRoutines_def lastTarget_def
          lastTargetIn_append [of _ "automation st2"] list_all_iff split: option.splits)
  qed
qed

lemma consistent_setProfile:
  assumes c: "consistent st"
  shows "consistent (setProfile p now st)"
proof (cases "p = profile (rendered st)")
  case True
  then show ?thesis using c by (simp add: setProfile_def)
next
  case False
  define st1 where "st1 = st\<lparr>rendered := (rendered st)\<lparr>profile := p\<rparr>\<rparr>"
  define st2 where "st2 = profileCleanupRun st1"
  obtain Q where Q: "st2 = st1\<lparr>timers := filter Q (timers st1)\<rparr>"
    using profileCleanupRun_frame [of st1] by (auto simp: st2_def)
  have t2: "profileTimers st2 = []" "statusTimers st2 = statusTimers st"
    using profileCleanupRun_timers [OF c, of "(rendered st)\<lparr>profile := p\<rparr>"]
    by (simp_all add: st2_def st1_def)
  have ids: "list_all (\<lambda>tm. 0 < tid tm \<and> tid tm < nextTimerId st2) (timers st2)"
    and dist: "distinct (map tid (timers st2))"
    using c by (simp_all add: Q st1_def consistent_def list_all_iff distinct_map_filter)
  have rest: "built st2" "length (bank st2) = 3" "0 < nextTimerId st2"
    "statusCleanup st2 = statusCleanup st" "rendered st2 = (rendered st)\<lparr>profile := p\<rparr>"
    "automation st2 = automation st"
    using c by (simp_all add: Q st1_def consistent_def)
  have old: "liveRoutines (statusTimers st) = (if status (rendered st) = OVERRIDE then [(AlarmSweep, 1000)] else [])"
    "map tid (statusTimers st) = (case statusCleanup st of None \<Rightarrow> [] | Some i \<Rightarrow> [i])"
    "lastTarget MainGain st = Some (if isMuted (rendered st) then 0 else 0.4)"
    "lastTarget Pan st = Some (scrollPos (rendered st) / 50 - 1)"
    "lastTarget AlarmGain st = Some (if status (rendered st) = OVERRIDE then 0.1 else 0)"
    using c by (simp_all add: consistent_def)
  have "consistent (profileEffect now st2)"
    using rest t2 ids dist old
    by (intro profileEffect_consistent) (simp_all add: lastTarget_def)
  then show ?thesis using False by (simp add: setProfile_def st2_def st1_def)
qed

lemma consistent_mount: "consistent (mount pr now)"
  unfolding mount_def
  by (rule profileEffect_consistent)
    (simp_all add: statusEffect_def panEffect_def muteEffect_def buildGraph_def schedule_def
      setInterval_def Let_def profileTimers_def statusTimers_def liveRoutines_def lastTarget_def)

lemma consistent_step: "consistent st \<Longrightarrow> consistent (step a st)"
proof (cases a)
  case (Pair act now)
  assume "consistent st"
  then show ?thesis unfolding Pair
    by (cases act)
      (simp_all add: consistent_setProfile consistent_setStatus consistent_setScrollPosition
        consistent_setMuted consistent_fire)
qed

lemma consistent_run: "consistent st \<Longrightarrow> consistent (run acts st)"
  unfolding run_def by (induction acts arbitrary: st) (simp_all add: consistent_step)

lemma consistent_reachable: "consistent (run acts (mount pr now))"
  by (simp add: consistent_run consistent_mount)

section \<open>Evaluation and frame facts\<close>

lemma scheduledBy_schedule: "scheduledBy st (schedule calls st) = calls"
  by (simp add: scheduledBy_def schedule_def)

lemma scheduledBy_same: "scheduledBy st st = []"
  by (simp add: scheduledBy_def)

lemma consistent_built: "consistent st \<Longrightarrow> built st"
  by (simp add: consistent_def)

lemma automation_statusCleanupRun: "automation (statusCleanupRun st) = automation st"
  by (simp add: statusCleanupRun_def clearInterval_def split: option.splits)

lemma automation_profileCleanupRun: "automation (profileCleanupRun st) = automation st"
  by (simp add: profileCleanupRun_def clearInterval_def split: option.splits)

lemma built_statusCleanupRun: "built (statusCleanupRun st) = built st"
  by (simp add: statusCleanupRun_def clearInterval_def split: option.splits)

lemma built_profileCleanupRun: "built (profileCleanupRun st) = built st"
  by (simp add: profileCleanupRun_def clearInterval_def split: option.splits)

lemma rendered_statusCleanupRun: "rendered (statusCleanupRun st) = rendered st"
  by (simp add: statusCleanupRun_def clearInterval_def split: option.splits)

lemma rendered_profileCleanupRun: "rendered (profileCleanupRun st) = rendered st"
  by (simp add: profileCleanupRun_def clearInterval_def split: option.splits)

lemma bank_profileCleanupRun: "bank (profileCleanupRun st) = bank st"
  by (simp add: profileCleanupRun_def clearInterval_def split: option.splits)

lemmas eval_defs = mount_def buildGraph_def muteEffect_def panEffect_def statusEffect_def
  profileEffect_def schedule_def setInterval_def clearInterval_def Let_def
  caseNatural_def caseIndustrial_def caseVoid_def caseElectronic_def caseHostile_def
  defaultTransitions_def

lemma mount_electronicProps:
  "mount electronicProps 0 =
     \<lparr>rendered = electronicProps, built = True, bank = [Sawtooth, Square, Sine],
      alarmOscType = Sawtooth, filterType = Highpass, value0 = mountValue False,
      automation =
        [(MainGain, SetTargetAtTime 0.4 0 0.1),
         (Pan, SetTargetAtTime 0.5 0 0.1),
         (AlarmGain, SetTargetAtTime 0 0 0.2),
         (FilterQ, SetTargetAtTime 1 0 0.5),
         (NoiseGain, SetTargetAtTime 0.5 0 0.5),
         (DroneGain, SetTargetAtTime 0.2 0 0.5),
         (FilterFrequency, SetTargetAtTime 3000 0 0.5),
         (NoiseGain, SetTargetAtTime 0.4 0 0.5),
         (BankFrequency 0, SetTargetAtTime 440 0 0.5),
         (BankFrequency 1, SetTargetAtTime 880 0 0.5),
         (BankFrequency 2, SetTargetAtTime 1760 0 0.5)],
      timers = [\<lparr>tid = 1, callback = GlitchBlip, period = 600\<rparr>],
      nextTimerId = 2, statusCleanup = None, profileCleanup = Some 1\<rparr>"
  by (simp add: eval_defs electronicProps_def)

lemma find_by_tid:
  "distinct (map tid tms) \<Longrightarrow> tm \<in> set tms \<Longrightarrow> find (\<lambda>x. tid x = tid tm) tms = Some tm"
  by (induction tms) (auto simp: image_iff)

lemma fire_live:
  assumes "consistent st" "tm \<in> set (timers st)"
  shows "fire (tid tm) t rnd st = runCallback (callback tm) t rnd st"
  using assms by (simp add: fire_def consistent_def find_by_tid)

lemma override_electronicProps:
  "setStatus OVERRIDE 1 (mount electronicProps 0) =
     \<lparr>rendered = electronicProps\<lparr>status := OVERRIDE\<rparr>, built = True,
      bank = [Sawtooth, Square, Sine], alarmOscType = Sawtooth, filterType = Highpass,
      value0 = mountValue False,
      automation =
        [(MainGain, SetTargetAtTime 0.4 0 0.1),
         (Pan, SetTargetAtTime 0.5 0 0.1),
         (AlarmGain, SetTargetAtTime 0 0 0.2),
         (FilterQ, SetTargetAtTime 1 0 0.5),
         (NoiseGain, SetTargetAtTime 0.5 0 0.5),
         (DroneGain, SetTargetAtTime 0.2 0 0.5),
         (FilterFrequency, SetTargetAtTime 3000 0 0.5),
         (NoiseGain, SetTargetAtTime 0.4 0 0.5),
         (BankFrequency 0, SetTargetAtTime 440 0 0.5),
         (BankFrequency 1, SetTargetAtTime 880 0 0.5),
         (BankFrequency 2, SetTargetAtTime 1760 0 0.5),
         (AlarmGain, SetTargetAtTime 0.1 1 0.1)],
      timers = [\<lparr>tid = 1, callback = GlitchBlip, period = 600\<rparr>,
                \<lparr>tid = 2, callback = AlarmSweep, period = 1000\<rparr>],
      nextTimerId = 3, statusCleanup = Some 2, profileCleanup = Some 1\<rparr>"
  unfolding mount_electronicProps
  by (simp add: setStatus_def statusCleanupRun_def statusEffect_def schedule_def setInterval_def
      electronicProps_def)

section \<open>Facts about the control surface\<close>

lemma setProfile_changed:
  assumes c: "consistent st" and ne: "p \<noteq> profile (rendered st)"
  obtains st2 where "setProfile p now st = profileEffect now st2" "built st2" "length (bank st2) = 3"
    "profile (rendered st2) = p" "automation st2 = automation st" "filterType st2 = filterType st"
    "bank st2 = bank st"
proof
  let ?st2 = "profileCleanupRun (st\<lparr>rendered := (rendered st)\<lparr>profile := p\<rparr>\<rparr>)"
  show "setProfile p now st = profileEffect now ?st2"
    using ne by (simp add: setProfile_def)
  show "built ?st2" "length (bank ?st2) = 3"
    using c by (simp_all add: built_profileCleanupRun bank_profileCleanupRun consistent_def)
  show "profile (rendered ?st2) = p" "automation ?st2 = automation st" "bank ?st2 = bank st"
    by (simp_all add: rendered_profileCleanupRun automation_profileCleanupRun bank_profileCleanupRun)
  show "filterType ?st2 = filterType st"
    by (simp add: profileCleanupRun_def clearInterval_def split: option.splits)
qed

lemma profile_live_routines:
  assumes "consistent st"
  shows "liveRoutines (profileTimers (setProfile p now st)) =
           (case routineOf p of None \<Rightarrow> [] | Some r \<Rightarrow> [r])"
proof -
  have "consistent (setProfile p now st)"
    using assms by (rule consistent_setProfile)
  moreover have "profile (rendered (setProfile p now st)) = p"
    by (cases "specTable p")
      (auto simp: setProfile_def profileEffect_def rendered_profileCleanupRun schedule_def
        setInterval_def Let_def caseNatural_def caseIndustrial_def caseVoid_def
        caseElectronic_def caseHostile_def)
  ultimately show ?thesis by (simp add: consistent_def)
qed

lemma rendered_profileEffect: "rendered (profileEffect now st) = rendered st"
  by (simp add: profileEffect_def schedule_def setInterval_def Let_def caseNatural_def
      caseIndustrial_def caseVoid_def caseElectronic_def caseHostile_def)

lemma rendered_mount: "rendered (mount pr now) = pr"
  by (simp add: mount_def rendered_profileEffect statusEffect_def panEffect_def muteEffect_def
      buildGraph_def schedule_def setInterval_def Let_def)

lemma rendered_setProfile: "rendered (setProfile p now st) = (rendered st)\<lparr>profile := p\<rparr>"
  by (simp add: setProfile_def rendered_profileEffect rendered_profileCleanupRun)

lemma rendered_setStatus: "rendered (setStatus s now st) = (rendered st)\<lparr>status := s\<rparr>"
  by (simp add: setStatus_def statusEffect_def schedule_def setInterval_def Let_def
      rendered_statusCleanupRun)

lemma statusTimers_profileEffect: "statusTimers (profileEffect now st) = statusTimers st"
  by (simp add: profileEffect_def statusTimers_def schedule_def setInterval_def Let_def
      caseNatural_def caseIndustrial_def caseVoid_def caseElectronic_def caseHostile_def)

lemma profileTimers_statusEffect: "profileTimers (statusEffect now st) = profileTimers st"
  by (simp add: statusEffect_def profileTimers_def schedule_def setInterval_def Let_def)

lemma statusTimers_setProfile:
  "consistent st \<Longrightarrow> statusTimers (setProfile p now st) = statusTimers st"
  by (simp add: setProfile_def statusTimers_profileEffect profileCleanupRun_timers)

lemma profileTimers_setStatus:
  "consistent st \<Longrightarrow> profileTimers (setStatus s now st) = profileTimers st"
  by (simp add: setStatus_def profileTimers_statusEffect statusCleanupRun_timers)

section \<open>Timelines\<close>

lemma insort_key_last:
  "f x \<le> f e \<Longrightarrow> \<forall>y \<in> set ys. f y \<le> f e \<Longrightarrow> insort_key f x (ys @ [e]) = insort_key f x ys @ [e]"
  by (induction ys) auto

lemma set_sort_key_foldr: "set (foldr (insort_key f) xs []) = set xs"
  by (induction xs) (auto simp: set_insort_key)

lemma sort_key_snoc:
  "\<forall>x \<in> set xs. f x \<le> f e \<Longrightarrow> sort_key f (xs @ [e]) = sort_key f xs @ [e]"
proof (induction xs)
  case Nil
  show ?case by (simp add: sort_key_def)
next
  case (Cons x xs)
  then have ih: "foldr (insort_key f) xs [e] = foldr (insort_key f) xs [] @ [e]"
    by (simp add: sort_key_def)
  have "\<forall>y \<in> set (foldr (insort_key f) xs []). f y \<le> f e"
    using Cons.prems by (simp add: set_sort_key_foldr)
  then show ?case
    using Cons.prems by (simp add: sort_key_def ih insort_key_last)
qed

lemma timeline_schedule_later:
  assumes "\<forall>e \<in> set (timeline p st). eventTime e \<le> eventTime e1" "eventTime e1 \<le> eventTime e2"
  shows "timeline p (schedule [(p, e1), (p, e2)] st) = timeline p st @ [e1, e2]"
proof -
  let ?xs = "map snd (filter (\<lambda>c. fst c = p) (automation st))"
  have xs: "\<forall>e \<in> set ?xs. eventTime e \<le> eventTime e1"
    using assms(1) by (simp add: timeline_def)
  then have one: "sort_key eventTime (?xs @ [e1]) = sort_key eventTime ?xs @ [e1]"
    by (rule sort_key_snoc)
  have "\<forall>e \<in> set (?xs @ [e1]). eventTime e \<le> eventTime e2"
    using xs assms(2) by auto
  then have "sort_key eventTime ((?xs @ [e1]) @ [e2]) = sort_key eventTime (?xs @ [e1]) @ [e2]"
    by (rule sort_key_snoc)
  then show ?thesis
    using one by (simp add: timeline_def schedule_def)
qed

lemma value0_schedule: "value0 (schedule calls st) = value0 st"
  by (simp add: schedule_def)

lemma run_Nil: "run [] st = st"
  by (simp add: run_def)

lemma timeline_mount_electronic_slot1:
  "timeline (BankFrequency 1) (mount electronicProps 0) = [SetTargetAtTime 880 0 0.5]"
  unfolding mount_electronicProps by (simp add: timeline_def)

lemma value0_mount_electronic_slot1:
  "value0 (mount electronicProps 0) (BankFrequency 1) = 440"
  unfolding mount_electronicProps by simp

lemma paramValue_mount_electronic_slot1:
  "paramValue (mount electronicProps 0) (BankFrequency 1) 0.6 = 880 - 440 * exp (- (6 / 5))"
  unfolding paramValue_def timeline_mount_electronic_slot1 value0_mount_electronic_slot1
  by simp

lemma profileTimers_mount_electronic:
  "profileTimers (mount electronicProps 0) = [\<lparr>tid = 1, callback = GlitchBlip, period = 600\<rparr>]"
  unfolding mount_electronicProps by (simp add: profileTimers_def)

section \<open>Smooth calls\<close>

lemma allSmooth_append: "allSmooth (xs @ ys) = (allSmooth xs \<and> allSmooth ys)"
  by (simp add: allSmooth_def)

lemma profileEffect_smooth:
  "\<exists>calls. automation (profileEffect now st) = automation st @ calls \<and> allSmooth calls"
proof (cases "\<not> built st \<or> length (bank st) < 3")
  case True
  then have "automation (profileEffect now st) = automation st @ []"
    by (auto simp: profileEffect_def)
  then show ?thesis by (intro exI [of _ "[]"]) (simp add: allSmooth_def)
next
  case False
  then show ?thesis
    by (simp add: profileEffect_def schedule_def setInterval_def Let_def caseNatural_def
        caseIndustrial_def caseVoid_def caseElectronic_def caseHostile_def
        defaultTransitions_def allSmooth_def)
qed

lemma fold_jitterOsc_smooth:
  "\<exists>calls. fold (jitterOsc t rnd) xs st = schedule calls st \<and> allSmooth calls"
proof (induction xs arbitrary: st)
  case Nil
  show ?case by (intro exI [of _ "[]"]) (simp add: schedule_Nil allSmooth_def)
next
  case (Cons x xs)
  obtain c where c: "jitterOsc t rnd x st = schedule c st" "allSmooth c"
    by (simp add: jitterOsc_def Let_def allSmooth_def)
  obtain calls where "fold (jitterOsc t rnd) xs (schedule c st) = schedule calls (schedule c st)"
     "allSmooth calls"
    using Cons.IH by blast
  then show ?case using c
    by (intro exI [of _ "c @ calls"]) (auto simp: schedule_schedule allSmooth_append)
qed

lemma row_targets:
  assumes "specTable p = Some row"
  shows "lastTargetIn FilterFrequency (xs @ defaultTransitions now @ tableTransitions now row) = Some (rowCutoff row)"
    and "lastTargetIn FilterQ (xs @ defaultTransitions now @ tableTransitions now row) =
           Some (case rowQ row of None \<Rightarrow> 1 | Some q \<Rightarrow> q)"
    and "lastTargetIn NoiseGain (xs @ defaultTransitions now @ tableTransitions now row) = Some (rowNoiseGain row)"
    and "lastTargetIn DroneGain (xs @ defaultTransitions now @ tableTransitions now row) = Some 0.2"
    and "map (\<lambda>i. lastTargetIn (BankFrequency i) (xs @ defaultTransitions now @ tableTransitions now row)) [0, 1, 2] =
           map (\<lambda>wf. Some (snd wf)) (rowBank row)"
  using assms
  by (auto simp: specTable_def lastTargetIn_append defaultTransitions_def tableTransitions_def
      split: if_splits)

section \<open>The retry wrapper\<close>

text \<open>
  C9. With the default arguments every call site uses, the wrapper sleeps at most twice,
  2000 ms and then 4000 ms; it sleeps (and calls again) only after a rejection whose
  message marks a quota error; and what it settles with is the outcome of its last call,
  unchanged: a resolved value, an error that is no quota error, or the quota error of the
  third call. Before the third call it stops only on an outcome that is no quota error.
\<close>

theorem withRetry_policy:
  "case withRetry_default fn of (r, slept) \<Rightarrow>
     (slept = [] \<or> slept = [2000] \<or> slept = [2000, 4000]) \<and>
     (\<forall>i < length slept. \<exists>e. fn i = Inl e \<and> isQuotaError e) \<and>
     r = fn (length slept) \<and>
     (length slept < 2 \<longrightarrow> (\<forall>e. fn (length slept) = Inl e \<longrightarrow> \<not> isQuotaError e))"
  unfolding withRetry_default_def
  by (simp add: withRetry.simps [of fn 0] withRetry.simps [of fn "Suc 0"]
      withRetry.simps [of fn "Suc (Suc 0)"] less_Suc_eq split: sum.splits)

theorem withRetry_policy_witness:
  "withRetry_default flaky = (Inr 7, [2000])"
  using withRetry_policy [of flaky]
  by (simp add: withRetry_default_def withRetry.simps [of flaky] flaky_def isQuotaError_def)

section \<open>Spatial position control\<close>

text \<open>
  C2 (as amended). In every state reached from mounting, \<open>setScrollPosition p\<close>
  schedules, when \<open>p\<close> differs from the position of the last render, exactly one call:
  a \<open>setTargetAtTime\<close> on the panner toward \<open>p/50 - 1\<close> with time constant 0.1; and
  after the call the panner was last sent toward \<open>p/50 - 1\<close>, whatever \<open>p\<close> is. The
  value is not clamped. For \<open>p\<close> between 0 and 100 it is the pan of the specification
  (\<open>-1\<close> at 0, 0 at 50, 1 at 100).
\<close>

theorem setScrollPosition_target:
  assumes "st = run acts (mount pr t0)"
  shows "scheduledBy st (setScrollPosition p now st) =
           (if p = scrollPos (rendered st) then [] else [(Pan, SetTargetAtTime (p / 50 - 1) now 0.1)]) \<and>
         lastTarget Pan (setScrollPosition p now st) = Some (p / 50 - 1) \<and>
         (0 \<le> p \<and> p \<le> 100 \<longrightarrow> p / 50 - 1 = specPan p)"
proof (intro conjI)
  have c: "consistent st"
    using assms by (simp add: consistent_reachable)
  then show "scheduledBy st (setScrollPosition p now st) =
           (if p = scrollPos (rendered st) then [] else [(Pan, SetTargetAtTime (p / 50 - 1) now 0.1)])"
    by (simp add: setScrollPosition_def panEffect_def consistent_def scheduledBy_def schedule_def)
  have "consistent (setScrollPosition p now st)"
    using c by (rule consistent_setScrollPosition)
  moreover have "scrollPos (rendered (setScrollPosition p now st)) = p"
    by (simp add: setScrollPosition_def panEffect_def schedule_def)
  ultimately show "lastTarget Pan (setScrollPosition p now st) = Some (p / 50 - 1)"
    by (simp add: consistent_def)
  show "0 \<le> p \<and> p \<le> 100 \<longrightarrow> p / 50 - 1 = specPan p"
    by (auto simp: specPan_def)
qed

theorem setScrollPosition_target_witness:
  "lastTarget Pan (setScrollPosition 0 2 (run [(SetMuted True, 1)] (mount electronicProps 0))) = Some (specPan 0) \<and>
   specPan 0 = - 1 \<and>
   lastTarget Pan (setScrollPosition 50 2 (run [(SetMuted True, 1)] (mount electronicProps 0))) = Some (specPan 50) \<and>
   specPan 50 = 0 \<and>
   lastTarget Pan (setScrollPosition 100 2 (run [(SetMuted True, 1)] (mount electronicProps 0))) = Some (specPan 100) \<and>
   specPan 100 = 1"
  using setScrollPosition_target [OF refl, where p = 0 and now = 2 and acts = "[(SetMuted True, 1)]" and pr = electronicProps and ?t0.0 = 0]
    setScrollPosition_target [OF refl, where p = 50 and now = 2 and acts = "[(SetMuted True, 1)]" and pr = electronicProps and ?t0.0 = 0]
    setScrollPosition_target [OF refl, where p = 100 and now = 2 and acts = "[(SetMuted True, 1)]" and pr = electronicProps and ?t0.0 = 0]
  by (simp add: specPan_def)

text \<open>
  C2 as stated fails: for \<open>p = 150\<close> the target handed to the panner is 2, not the
  clamped value 1.
\<close>

theorem setScrollPosition_clamp_counterexample:
  "lastTarget Pan (setScrollPosition 150 1 (mount electronicProps 0)) \<noteq> Some (specPan 150)"
  unfolding mount_electronicProps
  by (simp add: setScrollPosition_def panEffect_def schedule_def
      electronicProps_def lastTarget_def specPan_def)

section \<open>Mute control\<close>

text \<open>
  C6. In every state reached from mounting, whatever the profile: \<open>setMuted m\<close>
  schedules, when \<open>m\<close> differs from the flag of the last render, exactly one call, a
  \<open>setTargetAtTime\<close> (an exponential approach) on the master gain toward 0 when muting
  and toward 0.4 when unmuting, with time constant 0.1; after \<open>setMuted True\<close> the
  master gain was last sent toward 0, after \<open>setMuted False\<close> toward 0.4; unmuting
  after muting leaves it sent toward 0.4; and a second \<open>setMuted\<close> with the same value
  changes nothing.
\<close>

theorem setMuted_target:
  assumes "st = run acts (mount pr t0)"
  shows "scheduledBy st (setMuted m now st) =
           (if m = isMuted (rendered st) then []
            else [(MainGain, SetTargetAtTime (if m then 0 else 0.4) now 0.1)]) \<and>
         lastTarget MainGain (setMuted True now st) = Some 0 \<and>
         lastTarget MainGain (setMuted False now st) = Some 0.4 \<and>
         lastTarget MainGain (setMuted False t2 (setMuted True t1 st)) = Some 0.4 \<and>
         setMuted m t2 (setMuted m t1 st) = setMuted m t1 st"
proof (intro conjI)
  have c: "consistent st"
    using assms by (simp add: consistent_reachable)
  then show "scheduledBy st (setMuted m now st) =
           (if m = isMuted (rendered st) then []
            else [(MainGain, SetTargetAtTime (if m then 0 else 0.4) now 0.1)])"
    by (simp add: setMuted_def muteEffect_def consistent_def scheduledBy_def schedule_def)
  have after: "lastTarget MainGain (setMuted b t st') = Some (if b then 0 else 0.4)"
    if "consistent st'" for b t st'
  proof -
    have "consistent (setMuted b t st')"
      using that by (rule consistent_setMuted)
    moreover have "isMuted (rendered (setMuted b t st')) = b"
      by (simp add: setMuted_def muteEffect_def schedule_def)
    ultimately show ?thesis by (simp add: consistent_def)
  qed
  show "lastTarget MainGain (setMuted True now st) = Some 0"
    using after [OF c, of True now] by simp
  show "lastTarget MainGain (setMuted False now st) = Some 0.4"
    using after [OF c, of False now] by simp
  show "lastTarget MainGain (setMuted False t2 (setMuted True t1 st)) = Some 0.4"
    using after [OF consistent_setMuted [OF c], of False t2 True t1] by simp
  show "setMuted m t2 (setMuted m t1 st) = setMuted m t1 st"
    by (simp add: setMuted_def muteEffect_def schedule_def)
qed

theorem setMuted_target_witness:
  "scheduledBy (run [(SetProfile ''Hostile'', 1)] (mount electronicProps 0))
     (setMuted True 2 (run [(SetProfile ''Hostile'', 1)] (mount electronicProps 0))) =
     [(MainGain, SetTargetAtTime 0 2 0.1)] \<and>
   lastTarget MainGain (setMuted False 3 (setMuted True 2
     (run [(SetProfile ''Hostile'', 1)] (mount electronicProps 0)))) = Some 0.4"
proof -
  have "isMuted (rendered (run [(SetProfile ''Hostile'', 1)] (mount electronicProps 0))) = False"
    unfolding mount_electronicProps
    by (simp add: run_def setProfile_def rendered_profileCleanupRun profileEffect_def
        caseHostile_def schedule_def setInterval_def Let_def electronicProps_def)
  then show ?thesis
    using setMuted_target [OF refl, where m = True and now = 2 and ?t1.0 = 2 and ?t2.0 = 3
        and acts = "[(SetProfile ''Hostile'', 1)]" and pr = electronicProps and ?t0.0 = 0]
    by simp
qed

section \<open>Status control\<close>

text \<open>
  C3. In every state reached from mounting, a change of status to \<open>OVERRIDE\<close>
  schedules one call, a \<open>setTargetAtTime\<close> on the alarm gain toward 0.1, and leaves
  exactly one status interval live, the alarm sweep with period 1000 ms; a change to any
  other status schedules a \<open>setTargetAtTime\<close> on the alarm gain toward 0 and leaves no
  status interval live. Whenever the live status interval fires, at time \<open>t\<close>, it sets
  the alarm frequency to 880 at \<open>t\<close> and ramps it exponentially to 440 by \<open>t + 0.4\<close>.
\<close>

theorem setStatus_alarm:
  assumes "st = run acts (mount pr t0)"
  shows "scheduledBy st (setStatus s now st) =
           (if s = status (rendered st) then []
            else if s = OVERRIDE then [(AlarmGain, SetTargetAtTime 0.1 now 0.1)]
            else [(AlarmGain, SetTargetAtTime 0 now 0.2)]) \<and>
         lastTarget AlarmGain (setStatus s now st) = Some (if s = OVERRIDE then 0.1 else 0) \<and>
         liveRoutines (statusTimers (setStatus s now st)) =
           (if s = OVERRIDE then [(AlarmSweep, 1000)] else []) \<and>
         (\<forall>tm \<in> set (statusTimers (setStatus s now st)).
            scheduledBy (setStatus s now st) (fire (tid tm) t rnd (setStatus s now st)) =
              [(AlarmFrequency, SetValueAtTime 880 t),
               (AlarmFrequency, ExponentialRampToValueAtTime 440 (t + 0.4))])"
proof (intro conjI ballI)
  have c: "consistent st"
    using assms by (simp add: consistent_reachable)
  have c': "consistent (setStatus s now st)"
    using c by (rule consistent_setStatus)
  have s': "status (rendered (setStatus s now st)) = s"
    by (simp add: setStatus_def statusEffect_def schedule_def setInterval_def Let_def
        rendered_statusCleanupRun)
  show "scheduledBy st (setStatus s now st) =
           (if s = status (rendered st) then []
            else if s = OVERRIDE then [(AlarmGain, SetTargetAtTime 0.1 now 0.1)]
            else [(AlarmGain, SetTargetAtTime 0 now 0.2)])"
    using c
    by (simp add: setStatus_def statusEffect_def consistent_def scheduledBy_def schedule_def
        setInterval_def Let_def built_statusCleanupRun automation_statusCleanupRun
        rendered_statusCleanupRun)
  show "lastTarget AlarmGain (setStatus s now st) = Some (if s = OVERRIDE then 0.1 else 0)"
    using c' s' by (simp add: consistent_def)
  show "liveRoutines (statusTimers (setStatus s now st)) =
           (if s = OVERRIDE then [(AlarmSweep, 1000)] else [])"
    using c' s' by (simp add: consistent_def)
  fix tm
  assume "tm \<in> set (statusTimers (setStatus s now st))"
  then have tm: "tm \<in> set (timers (setStatus s now st))" "callback tm = AlarmSweep"
    by (simp_all add: statusTimers_def)
  have "built (setStatus s now st)"
    using c' by (rule consistent_built)
  then show "scheduledBy (setStatus s now st) (fire (tid tm) t rnd (setStatus s now st)) =
              [(AlarmFrequency, SetValueAtTime 880 t),
               (AlarmFrequency, ExponentialRampToValueAtTime 440 (t + 0.4))]"
    using tm by (simp add: fire_live [OF c' tm(1)] alarmSweep_def scheduledBy_schedule)
qed

theorem setStatus_alarm_witness:
  "statusTimers (setStatus OVERRIDE 1 (run [] (mount electronicProps 0))) =
     [\<lparr>tid = 2, callback = AlarmSweep, period = 1000\<rparr>] \<and>
   scheduledBy (setStatus OVERRIDE 1 (run [] (mount electronicProps 0)))
     (fire 2 2 zeroDraws (setStatus OVERRIDE 1 (run [] (mount electronicProps 0)))) =
     [(AlarmFrequency, SetValueAtTime 880 2),
      (AlarmFrequency, ExponentialRampToValueAtTime 440 2.4)]"
proof -
  have live: "statusTimers (setStatus OVERRIDE 1 (run [] (mount electronicProps 0))) =
     [\<lparr>tid = 2, callback = AlarmSweep, period = 1000\<rparr>]"
    by (simp add: run_def override_electronicProps statusTimers_def)
  show ?thesis
    using setStatus_alarm [OF refl, where s = OVERRIDE and now = 1 and t = 2 and rnd = zeroDraws
        and acts = "[]" and pr = electronicProps and ?t0.0 = 0]
    by (simp add: live)
qed

section \<open>Profile control\<close>

text \<open>
  C1. In every state reached from mounting, a change of profile to one of the five of
  the table schedules first the three baseline transitions (filter resonance toward 1,
  noise gain toward 0.5, drone gain toward 0.2) and then the targets of the profile's row
  of the specification's table, every one a \<open>setTargetAtTime\<close> with time constant 0.5;
  it sets the filter type and the bank waveforms of the row, so that cutoff, resonance,
  noise gain, drone gain and the three bank frequencies are last sent toward the row's
  values (resonance toward 1 where the row names none, drone gain toward 0.2), and leaves
  live exactly the profile interval whose period the row gives, or none where it gives
  none. For \<open>Electronic\<close>: filter type highpass, cutoff toward 3000, noise gain toward
  0.4, bank waveforms sawtooth, square, sine with frequencies toward 440, 880, 1760, and
  the glitch interval with period 600 ms.
\<close>

theorem setProfile_table:
  assumes "st = run acts (mount pr t0)" "p \<noteq> profile (rendered st)" "specTable p = Some row"
  shows "scheduledBy st (setProfile p now st) =
           [(FilterQ, SetTargetAtTime 1 now 0.5),
            (NoiseGain, SetTargetAtTime 0.5 now 0.5),
            (DroneGain, SetTargetAtTime 0.2 now 0.5)] @ tableTransitions now row \<and>
         filterType (setProfile p now st) = rowFilter row \<and>
         bank (setProfile p now st) = map fst (rowBank row) \<and>
         lastTarget FilterFrequency (setProfile p now st) = Some (rowCutoff row) \<and>
         lastTarget FilterQ (setProfile p now st) =
           Some (case rowQ row of None \<Rightarrow> 1 | Some q \<Rightarrow> q) \<and>
         lastTarget NoiseGain (setProfile p now st) = Some (rowNoiseGain row) \<and>
         lastTarget DroneGain (setProfile p now st) = Some 0.2 \<and>
         map (\<lambda>i. lastTarget (BankFrequency i) (setProfile p now st)) [0, 1, 2] =
           map (\<lambda>wf. Some (snd wf)) (rowBank row) \<and>
         map period (profileTimers (setProfile p now st)) =
           (case rowPeriod row of None \<Rightarrow> [] | Some ms \<Rightarrow> [ms]) \<and>
         (p = ''Electronic'' \<longrightarrow>
            filterType (setProfile p now st) = Highpass \<and>
            scheduledBy st (setProfile p now st) =
              [(FilterQ, SetTargetAtTime 1 now 0.5),
               (NoiseGain, SetTargetAtTime 0.5 now 0.5),
               (DroneGain, SetTargetAtTime 0.2 now 0.5),
               (FilterFrequency, SetTargetAtTime 3000 now 0.5),
               (NoiseGain, SetTargetAtTime 0.4 now 0.5),
               (BankFrequency 0, SetTargetAtTime 440 now 0.5),
               (BankFrequency 1, SetTargetAtTime 880 now 0.5),
               (BankFrequency 2, SetTargetAtTime 1760 now 0.5)] \<and>
            bank (setProfile p now st) = [Sawtooth, Square, Sine] \<and>
            liveRoutines (profileTimers (setProfile p now st)) = [(GlitchBlip, 600)])"
proof -
  have c: "consistent st"
    using assms(1) by (simp add: consistent_reachable)
  obtain st2 where st2: "setProfile p now st = profileEffect now st2" "built st2"
    "length (bank st2) = 3" "profile (rendered st2) = p" "automation st2 = automation st"
    by (rule setProfile_changed [OF c assms(2)])
  have row: "specTable (profile (rendered st2)) = Some row"
    using assms(3) st2(4) by simp
  have sched: "scheduledBy st (setProfile p now st) =
           [(FilterQ, SetTargetAtTime 1 now 0.5),
            (NoiseGain, SetTargetAtTime 0.5 now 0.5),
            (DroneGain, SetTargetAtTime 0.2 now 0.5)] @ tableTransitions now row"
    by (simp add: st2(1) profileEffect_row [OF st2(2,3) row] scheduledBy_def st2(5)
        defaultTransitions_def)
  have ft: "filterType (setProfile p now st) = rowFilter row"
    and bk: "bank (setProfile p now st) = map fst (rowBank row)"
    by (simp_all add: st2(1) profileEffect_row [OF st2(2,3) row])
  have "automation (setProfile p now st) =
          automation st @ defaultTransitions now @ tableTransitions now row"
    by (simp add: st2(1) profileEffect_row [OF st2(2,3) row] st2(5))
  then have lt: "lastTarget FilterFrequency (setProfile p now st) = Some (rowCutoff row)"
    "lastTarget FilterQ (setProfile p now st) =
       Some (case rowQ row of None \<Rightarrow> 1 | Some q \<Rightarrow> q)"
    "lastTarget NoiseGain (setProfile p now st) = Some (rowNoiseGain row)"
    "lastTarget DroneGain (setProfile p now st) = Some 0.2"
    "map (\<lambda>i. lastTarget (BankFrequency i) (setProfile p now st)) [0, 1, 2] =
       map (\<lambda>wf. Some (snd wf)) (rowBank row)"
    using row_targets [OF assms(3), of "automation st" now] by (simp_all add: lastTarget_def)
  have live: "liveRoutines (profileTimers (setProfile p now st)) =
           (case routineOf p of None \<Rightarrow> [] | Some r \<Rightarrow> [r])"
    using c by (rule profile_live_routines)
  have "map period (profileTimers (setProfile p now st)) =
          map snd (liveRoutines (profileTimers (setProfile p now st)))"
    by (simp add: liveRoutines_def)
  also have "\<dots> = (case rowPeriod row of None \<Rightarrow> [] | Some ms \<Rightarrow> [ms])"
    using assms(3) by (auto simp: live routineOf_def specTable_def split: if_splits)
  finally have per: "map period (profileTimers (setProfile p now st)) =
          (case rowPeriod row of None \<Rightarrow> [] | Some ms \<Rightarrow> [ms])" .
  have el: "p = ''Electronic'' \<longrightarrow>
            filterType (setProfile p now st) = Highpass \<and>
            scheduledBy st (setProfile p now st) =
              [(FilterQ, SetTargetAtTime 1 now 0.5),
               (NoiseGain, SetTargetAtTime 0.5 now 0.5),
               (DroneGain, SetTargetAtTime 0.2 now 0.5),
               (FilterFrequency, SetTargetAtTime 3000 now 0.5),
               (NoiseGain, SetTargetAtTime 0.4 now 0.5),
               (BankFrequency 0, SetTargetAtTime 440 now 0.5),
               (BankFrequency 1, SetTargetAtTime 880 now 0.5),
               (BankFrequency 2, SetTargetAtTime 1760 now 0.5)] \<and>
            bank (setProfile p now st) = [Sawtooth, Square, Sine] \<and>
            liveRoutines (profileTimers (setProfile p now st)) = [(GlitchBlip, 600)]"
  proof
    assume e: "p = ''Electronic''"
    then have "row = \<lparr>rowFilter = Highpass, rowCutoff = 3000, rowQ = None, rowNoiseGain = 0.4,
         rowBank = [(Sawtooth, 440), (Square, 880), (Sine, 1760)], rowPeriod = Some 600\<rparr>"
      using assms(3) by (simp add: specTable_def)
    then show "filterType (setProfile p now st) = Highpass \<and>
            scheduledBy st (setProfile p now st) =
              [(FilterQ, SetTargetAtTime 1 now 0.5),
               (NoiseGain, SetTargetAtTime 0.5 now 0.5),
               (DroneGain, SetTargetAtTime 0.2 now 0.5),
               (FilterFrequency, SetTargetAtTime 3000 now 0.5),
               (NoiseGain, SetTargetAtTime 0.4 now 0.5),
               (BankFrequency 0, SetTargetAtTime 440 now 0.5),
               (BankFrequency 1, SetTargetAtTime 880 now 0.5),
               (BankFrequency 2, SetTargetAtTime 1760 now 0.5)] \<and>
            bank (setProfile p now st) = [Sawtooth, Square, Sine] \<and>
            liveRoutines (profileTimers (setProfile p now st)) = [(GlitchBlip, 600)]"
      using e sched ft bk live by (simp add: tableTransitions_def routineOf_def numeral_2_eq_2)
  qed
  show ?thesis using sched ft bk lt per el by blast
qed

theorem setProfile_table_witness:
  "scheduledBy (run [] (mount hostileProps 0))
     (setProfile ''Electronic'' 1 (run [] (mount hostileProps 0))) =
     [(FilterQ, SetTargetAtTime 1 1 0.5),
      (NoiseGain, SetTargetAtTime 0.5 1 0.5),
      (DroneGain, SetTargetAtTime 0.2 1 0.5),
      (FilterFrequency, SetTargetAtTime 3000 1 0.5),
      (NoiseGain, SetTargetAtTime 0.4 1 0.5),
      (BankFrequency 0, SetTargetAtTime 440 1 0.5),
      (BankFrequency 1, SetTargetAtTime 880 1 0.5),
      (BankFrequency 2, SetTargetAtTime 1760 1 0.5)] \<and>
   filterType (setProfile ''Electronic'' 1 (run [] (mount hostileProps 0))) = Highpass \<and>
   bank (setProfile ''Electronic'' 1 (run [] (mount hostileProps 0))) = [Sawtooth, Square, Sine] \<and>
   lastTarget NoiseGain (setProfile ''Electronic'' 1 (run [] (mount hostileProps 0))) = Some 0.4 \<and>
   map period (profileTimers (setProfile ''Electronic'' 1 (run [] (mount hostileProps 0)))) = [600]"
proof -
  have ne: "''Electronic'' \<noteq> profile (rendered (run [] (mount hostileProps 0)))"
    by (simp add: run_def rendered_mount hostileProps_def)
  have row: "specTable ''Electronic'' =
      Some \<lparr>rowFilter = Highpass, rowCutoff = 3000, rowQ = None, rowNoiseGain = 0.4,
         rowBank = [(Sawtooth, 440), (Square, 880), (Sine, 1760)], rowPeriod = Some 600\<rparr>"
    by (simp add: specTable_def)
  show ?thesis
    using setProfile_table [OF refl ne row, of 1]
    by (simp add: tableTransitions_def numeral_2_eq_2)
qed

text \<open>
  C8. In every state reached from mounting, \<open>setProfile\<close> with a string that is none
  of the five profiles schedules the three baseline transitions and nothing else (nothing
  at all when the string is the profile of the last render, since then no effect runs),
  leaves no profile interval live, and leaves the filter type and the bank waveforms as
  they were; mounting with such a string installs no profile interval either. The
  functions are total: this path of the source has no \<open>throw\<close> and no \<open>default\<close>
  branch.
\<close>

theorem setProfile_unrecognised:
  assumes "st = run acts (mount pr t0)"
    and "p \<notin> {''Natural'', ''Industrial'', ''Void'', ''Electronic'', ''Hostile''}"
  shows "scheduledBy st (setProfile p now st) =
           (if p = profile (rendered st) then []
            else [(FilterQ, SetTargetAtTime 1 now 0.5),
                  (NoiseGain, SetTargetAtTime 0.5 now 0.5),
                  (DroneGain, SetTargetAtTime 0.2 now 0.5)]) \<and>
         profileTimers (setProfile p now st) = [] \<and>
         filterType (setProfile p now st) = filterType st \<and>
         bank (setProfile p now st) = bank st \<and>
         profileTimers (mount (pr\<lparr>profile := p\<rparr>) now) = []"
proof -
  have c: "consistent st"
    using assms(1) by (simp add: consistent_reachable)
  have none: "specTable p = None"
    using assms(2) by (simp add: specTable_None)
  have r: "routineOf p = None"
    using none by (rule routineOf_unrecognised)
  have "liveRoutines (profileTimers (setProfile p now st)) = []"
    using profile_live_routines [OF c, of p now] r by simp
  then have live: "profileTimers (setProfile p now st) = []"
    by (simp add: liveRoutines_def)
  have "consistent (mount (pr\<lparr>profile := p\<rparr>) now)"
    by (rule consistent_mount)
  then have "liveRoutines (profileTimers (mount (pr\<lparr>profile := p\<rparr>) now)) = []"
    using r by (simp add: consistent_def rendered_mount)
  then have m: "profileTimers (mount (pr\<lparr>profile := p\<rparr>) now) = []"
    by (simp add: liveRoutines_def)
  show ?thesis
  proof (cases "p = profile (rendered st)")
    case True
    then show ?thesis using live m by (simp add: setProfile_def scheduledBy_same)
  next
    case False
    obtain st2 where st2: "setProfile p now st = profileEffect now st2" "built st2"
      "length (bank st2) = 3" "profile (rendered st2) = p" "automation st2 = automation st"
      "filterType st2 = filterType st" "bank st2 = bank st"
      by (rule setProfile_changed [OF c False])
    have n2: "specTable (profile (rendered st2)) = None"
      using none st2(4) by simp
    show ?thesis
      using False live m
      by (simp add: st2(1) profileEffect_unrecognised [OF st2(2,3) n2] scheduledBy_def st2(5,6,7)
          defaultTransitions_def)
  qed
qed

theorem setProfile_unrecognised_witness:
  "scheduledBy (run [] (mount hostileProps 0))
     (setProfile ''Underwater'' 1 (run [] (mount hostileProps 0))) =
     [(FilterQ, SetTargetAtTime 1 1 0.5),
      (NoiseGain, SetTargetAtTime 0.5 1 0.5),
      (DroneGain, SetTargetAtTime 0.2 1 0.5)] \<and>
   profileTimers (setProfile ''Underwater'' 1 (run [] (mount hostileProps 0))) = []"
proof -
  have ne: "''Underwater'' \<noteq> profile (rendered (run [] (mount hostileProps 0)))"
    by (simp add: run_def rendered_mount hostileProps_def)
  have out: "''Underwater'' \<notin> {''Natural'', ''Industrial'', ''Void'', ''Electronic'', ''Hostile''}"
    by simp
  show ?thesis
    using setProfile_unrecognised [OF refl out, of "[]" hostileProps 0 1] ne by simp
qed

text \<open>
  C7. In every state reached from mounting, a second \<open>setProfile\<close> with the same
  profile changes nothing: the state after two calls is the state after one, so every
  last target, the filter type and the bank waveforms are the same, and at most one
  profile interval is live.
\<close>

theorem setProfile_twice:
  assumes "st = run acts (mount pr t0)"
  shows "setProfile p t2 (setProfile p t1 st) = setProfile p t1 st \<and>
         (\<forall>q. lastTarget q (setProfile p t2 (setProfile p t1 st)) =
               lastTarget q (setProfile p t1 st)) \<and>
         filterType (setProfile p t2 (setProfile p t1 st)) = filterType (setProfile p t1 st) \<and>
         bank (setProfile p t2 (setProfile p t1 st)) = bank (setProfile p t1 st) \<and>
         length (profileTimers (setProfile p t2 (setProfile p t1 st))) \<le> 1"
proof -
  have c: "consistent (setProfile p t1 st)"
    using assms by (simp add: consistent_reachable consistent_setProfile)
  have same: "setProfile p t2 (setProfile p t1 st) = setProfile p t1 st"
    by (simp add: setProfile_def [of p t2] rendered_setProfile)
  have "length (profileTimers (setProfile p t1 st)) =
          length (liveRoutines (profileTimers (setProfile p t1 st)))"
    by (simp add: liveRoutines_def)
  then have "length (profileTimers (setProfile p t1 st)) \<le> 1"
    using c by (simp add: consistent_def split: option.splits)
  then show ?thesis by (simp add: same)
qed

theorem setProfile_twice_witness:
  "setProfile ''Industrial'' 2 (setProfile ''Industrial'' 1 (run [] (mount electronicProps 0))) =
     setProfile ''Industrial'' 1 (run [] (mount electronicProps 0)) \<and>
   liveRoutines (profileTimers (setProfile ''Industrial'' 2
     (setProfile ''Industrial'' 1 (run [] (mount electronicProps 0))))) = [(MachinePulse, 1000)]"
proof -
  have "liveRoutines (profileTimers (setProfile ''Industrial'' 1 (run [] (mount electronicProps 0)))) =
      [(MachinePulse, 1000)]"
    using profile_live_routines [OF consistent_reachable [of "[]" electronicProps 0],
        where p = "''Industrial''" and now = 1]
    by (simp add: routineOf_def)
  then show ?thesis
    using setProfile_twice [OF refl, where p = "''Industrial''" and ?t1.0 = 1 and ?t2.0 = 2
        and acts = "[]" and pr = electronicProps and ?t0.0 = 0]
    by simp
qed

section \<open>Periodic routines\<close>

text \<open>
  C4. In every state reached from mounting by any history of control-surface calls and
  interval firings, at most one profile interval and at most one status interval are
  live, and there is no other live interval; the live ones are exactly those the props of
  the last render call for. \<open>setProfile\<close> leaves the status intervals as they are and
  \<open>setStatus\<close> the profile intervals. With profile \<open>Hostile\<close> and status \<open>OVERRIDE\<close>
  the 50 ms detune jitter and the 1000 ms alarm sweep are both live.
\<close>

theorem one_routine_per_axis:
  assumes "st = run acts (mount pr t0)"
  shows "length (profileTimers st) \<le> 1 \<and> length (statusTimers st) \<le> 1 \<and>
         length (timers st) = length (profileTimers st) + length (statusTimers st) \<and>
         liveRoutines (profileTimers st) =
           (case routineOf (profile (rendered st)) of None \<Rightarrow> [] | Some r \<Rightarrow> [r]) \<and>
         liveRoutines (statusTimers st) =
           (if status (rendered st) = OVERRIDE then [(AlarmSweep, 1000)] else []) \<and>
         statusTimers (setProfile p now st) = statusTimers st \<and>
         profileTimers (setStatus s now st) = profileTimers st \<and>
         (profile (rendered st) = ''Hostile'' \<and> status (rendered st) = OVERRIDE \<longrightarrow>
            liveRoutines (profileTimers st) = [(DetuneJitter, 50)] \<and>
            liveRoutines (statusTimers st) = [(AlarmSweep, 1000)])"
proof -
  have c: "consistent st"
    using assms by (simp add: consistent_reachable)
  have p: "liveRoutines (profileTimers st) =
           (case routineOf (profile (rendered st)) of None \<Rightarrow> [] | Some r \<Rightarrow> [r])"
    and s: "liveRoutines (statusTimers st) =
           (if status (rendered st) = OVERRIDE then [(AlarmSweep, 1000)] else [])"
    using c by (simp_all add: consistent_def)
  have "length (profileTimers st) = length (liveRoutines (profileTimers st))"
    "length (statusTimers st) = length (liveRoutines (statusTimers st))"
    by (simp_all add: liveRoutines_def)
  then have le: "length (profileTimers st) \<le> 1" "length (statusTimers st) \<le> 1"
    by (simp_all add: p s split: option.splits)
  have sum: "length (timers st) = length (profileTimers st) + length (statusTimers st)"
    using sum_length_filter_compl [of "\<lambda>tm. callback tm = AlarmSweep" "timers st"]
    by (simp add: profileTimers_def statusTimers_def)
  have both: "profile (rendered st) = ''Hostile'' \<and> status (rendered st) = OVERRIDE \<longrightarrow>
            liveRoutines (profileTimers st) = [(DetuneJitter, 50)] \<and>
            liveRoutines (statusTimers st) = [(AlarmSweep, 1000)]"
    by (simp add: p s routineOf_def)
  show ?thesis
    using le sum p s both statusTimers_setProfile [OF c] profileTimers_setStatus [OF c]
    by blast
qed

theorem one_routine_per_axis_witness:
  "liveRoutines (timers (run [(SetProfile ''Natural'', 1), (SetStatus LOCKED, 2),
       (SetProfile ''Hostile'', 3), (SetStatus OVERRIDE, 4)] (mount electronicProps 0))) =
     [(DetuneJitter, 50), (AlarmSweep, 1000)]"
proof -
  let ?st = "run [(SetProfile ''Natural'', 1), (SetStatus LOCKED, 2),
       (SetProfile ''Hostile'', 3), (SetStatus OVERRIDE, 4)] (mount electronicProps 0)"
  have r: "profile (rendered ?st) = ''Hostile'' \<and> status (rendered ?st) = OVERRIDE"
    by (simp add: run_def rendered_setProfile rendered_setStatus)
  have t: "timers ?st =
      [\<lparr>tid = 3, callback = DetuneJitter, period = 50\<rparr>,
       \<lparr>tid = 4, callback = AlarmSweep, period = 1000\<rparr>]"
    unfolding run_def mount_electronicProps
    by (simp add: setProfile_def setStatus_def profileCleanupRun_def statusCleanupRun_def
        profileEffect_def statusEffect_def caseNatural_def caseHostile_def schedule_def
        setInterval_def clearInterval_def Let_def electronicProps_def)
  show ?thesis
    using one_routine_per_axis [OF refl, where acts = "[(SetProfile ''Natural'', 1), (SetStatus LOCKED, 2),
       (SetProfile ''Hostile'', 3), (SetStatus OVERRIDE, 4)]" and pr = electronicProps and ?t0.0 = 0] r
    by (simp add: t liveRoutines_def)
qed

section \<open>The glitch of the Electronic profile\<close>

text \<open>
  C10. In every state reached from mounting whose profile is \<open>Electronic\<close>, when the
  live profile interval fires at time \<open>t\<close> it picks the bank slot
  \<open>floor (rnd 0 * 3)\<close> and schedules two \<open>setValueAtTime\<close> calls on its frequency:
  the blip \<open>100 + rnd 1 * 5000\<close> at \<open>t\<close>, and at \<open>t + 0.05\<close> the value the
  frequency had at \<open>t\<close>. If nothing on the slot's timeline lies after \<open>t\<close>, the
  frequency is the blip from \<open>t\<close> until \<open>t + 0.05\<close> and from then on stays at the
  value read at \<open>t\<close>: an earlier glide no longer moves it. And if the newest event of
  the slot is a half-second glide that started no later than \<open>t\<close> from a value other
  than its target, the value read at \<open>t\<close>, which is the value restored, is not the
  target.
\<close>

theorem glitch_restores_read_value:
  assumes "st = run acts (mount pr t0)" "profile (rendered st) = ''Electronic''"
    and "tm \<in> set (profileTimers st)"
    and "0 \<le> rnd 0" "rnd 0 < 1" "slot = BankFrequency (nat \<lfloor>rnd 0 * 3\<rfloor>)"
  shows "scheduledBy st (fire (tid tm) t rnd st) =
           [(slot, SetValueAtTime (100 + rnd 1 * 5000) t),
            (slot, SetValueAtTime (paramValue st slot t) (t + 0.05))] \<and>
         ((\<forall>e \<in> set (timeline slot st). eventTime e \<le> t) \<longrightarrow>
            (\<forall>t'. t \<le> t' \<and> t' < t + 0.05 \<longrightarrow>
               paramValue (fire (tid tm) t rnd st) slot t' = 100 + rnd 1 * 5000) \<and>
            (\<forall>t'. t + 0.05 \<le> t' \<longrightarrow>
               paramValue (fire (tid tm) t rnd st) slot t' = paramValue st slot t)) \<and>
         (\<forall>older target now.
            timeline slot st = older @ [SetTargetAtTime target now 0.5] \<and> now \<le> t \<and>
            valueAt (value0 st slot) (rev older) now \<noteq> target \<longrightarrow>
            paramValue st slot t \<noteq> target)"
proof -
  have c: "consistent st"
    using assms(1) by (simp add: consistent_reachable)
  have "liveRoutines (profileTimers st) = [(GlitchBlip, 600)]"
    using c assms(2) by (simp add: consistent_def routineOf_def)
  then have "\<forall>x \<in> set (profileTimers st). callback x = GlitchBlip"
    by (cases "profileTimers st") (auto simp: liveRoutines_def)
  then have cb: "callback tm = GlitchBlip"
    using assms(3) by blast
  have mem: "tm \<in> set (timers st)"
    using assms(3) by (simp add: profileTimers_def)
  have k: "0 \<le> \<lfloor>rnd 0 * 3\<rfloor>" "\<lfloor>rnd 0 * 3\<rfloor> < 3"
    using assms(4,5) by (simp_all add: floor_less_iff)
  have len: "length (bank st) = 3"
    using c by (simp add: consistent_def)
  have f: "fire (tid tm) t rnd st =
      schedule [(slot, SetValueAtTime (100 + rnd 1 * 5000) t),
                (slot, SetValueAtTime (paramValue st slot t) (t + 0.05))] st"
    using k len by (simp add: fire_live [OF c mem] cb glitchBlip_def Let_def assms(6))
  have a: "scheduledBy st (fire (tid tm) t rnd st) =
           [(slot, SetValueAtTime (100 + rnd 1 * 5000) t),
            (slot, SetValueAtTime (paramValue st slot t) (t + 0.05))]"
    by (simp add: f scheduledBy_schedule)
  have b: "(\<forall>t'. t \<le> t' \<and> t' < t + 0.05 \<longrightarrow>
               paramValue (fire (tid tm) t rnd st) slot t' = 100 + rnd 1 * 5000) \<and>
            (\<forall>t'. t + 0.05 \<le> t' \<longrightarrow>
               paramValue (fire (tid tm) t rnd st) slot t' = paramValue st slot t)"
    if past: "\<forall>e \<in> set (timeline slot st). eventTime e \<le> t"
  proof -
    have "timeline slot (fire (tid tm) t rnd st) =
        timeline slot st @ [SetValueAtTime (100 + rnd 1 * 5000) t,
                            SetValueAtTime (paramValue st slot t) (t + 0.05)]"
      unfolding f using past by (intro timeline_schedule_later) simp_all
    then show ?thesis
      by (simp add: paramValue_def f value0_schedule)
  qed
  have g: "paramValue st slot t \<noteq> target"
    if "timeline slot st = older @ [SetTargetAtTime target now 0.5] \<and> now \<le> t \<and>
            valueAt (value0 st slot) (rev older) now \<noteq> target" for older target now
    using that by (simp add: paramValue_def)
  show ?thesis using a b g by blast
qed

theorem glitch_restores_read_value_witness:
  "scheduledBy (run [] (mount electronicProps 0))
     (fire 1 0.6 glitchDraws (run [] (mount electronicProps 0))) =
     [(BankFrequency 1, SetValueAtTime 1100 0.6),
      (BankFrequency 1, SetValueAtTime (880 - 440 * exp (- (6 / 5))) 0.65)] \<and>
   paramValue (fire 1 0.6 glitchDraws (run [] (mount electronicProps 0))) (BankFrequency 1) 10 =
     880 - 440 * exp (- (6 / 5)) \<and>
   880 - 440 * exp (- (6 / 5)) \<noteq> (880 :: real)"
proof -
  let ?st = "run [] (mount electronicProps 0)"
  let ?tm = "\<lparr>tid = 1, callback = GlitchBlip, period = 600\<rparr>"
  have p: "profile (rendered ?st) = ''Electronic''"
    unfolding run_Nil rendered_mount by (simp add: electronicProps_def)
  have tm: "?tm \<in> set (profileTimers ?st)"
    unfolding run_Nil profileTimers_mount_electronic by simp
  have r: "0 \<le> glitchDraws 0" "glitchDraws 0 < 1"
    "BankFrequency 1 = BankFrequency (nat \<lfloor>glitchDraws 0 * 3\<rfloor>)"
    by (simp_all add: glitchDraws_def)
  have tl: "timeline (BankFrequency 1) ?st = [] @ [SetTargetAtTime 880 0 0.5]"
    unfolding run_Nil timeline_mount_electronic_slot1 by simp
  have v: "paramValue ?st (BankFrequency 1) 0.6 = 880 - 440 * exp (- (6 / 5))"
    unfolding run_Nil by (rule paramValue_mount_electronic_slot1)
  have v0: "value0 ?st (BankFrequency 1) = 440"
    unfolding run_Nil by (rule value0_mount_electronic_slot1)
  have fact: "scheduledBy ?st (fire (tid ?tm) 0.6 glitchDraws ?st) =
           [(BankFrequency 1, SetValueAtTime (100 + glitchDraws 1 * 5000) 0.6),
            (BankFrequency 1, SetValueAtTime (paramValue ?st (BankFrequency 1) 0.6) (0.6 + 0.05))] \<and>
         ((\<forall>e \<in> set (timeline (BankFrequency 1) ?st). eventTime e \<le> 0.6) \<longrightarrow>
            (\<forall>t'. 0.6 \<le> t' \<and> t' < 0.6 + 0.05 \<longrightarrow>
               paramValue (fire (tid ?tm) 0.6 glitchDraws ?st) (BankFrequency 1) t' = 100 + glitchDraws 1 * 5000) \<and>
            (\<forall>t'. 0.6 + 0.05 \<le> t' \<longrightarrow>
               paramValue (fire (tid ?tm) 0.6 glitchDraws ?st) (BankFrequency 1) t' = paramValue ?st (BankFrequency 1) 0.6)) \<and>
         (\<forall>older target now.
            timeline (BankFrequency 1) ?st = older @ [SetTargetAtTime target now 0.5] \<and> now \<le> 0.6 \<and>
            valueAt (value0 ?st (BankFrequency 1)) (rev older) now \<noteq> target \<longrightarrow>
            paramValue ?st (BankFrequency 1) 0.6 \<noteq> target)"
    by (rule glitch_restores_read_value [where st = ?st and acts = "[]" and pr = electronicProps
          and ?t0.0 = 0 and rnd = glitchDraws and tm = ?tm and slot = "BankFrequency 1"
          and t = "0.6", OF refl p tm r])
  have past: "\<forall>e \<in> set (timeline (BankFrequency 1) ?st). eventTime e \<le> 0.6"
    unfolding tl by simp
  have sched: "scheduledBy ?st (fire 1 0.6 glitchDraws ?st) =
     [(BankFrequency 1, SetValueAtTime 1100 0.6),
      (BankFrequency 1, SetValueAtTime (880 - 440 * exp (- (6 / 5))) 0.65)]"
    using fact unfolding v by (simp add: glitchDraws_def)
  have later: "paramValue (fire 1 0.6 glitchDraws ?st) (BankFrequency 1) 10 = 880 - 440 * exp (- (6 / 5))"
  proof -
    have "\<forall>t'. 0.6 + 0.05 \<le> t' \<longrightarrow>
        paramValue (fire (tid ?tm) 0.6 glitchDraws ?st) (BankFrequency 1) t' = paramValue ?st (BankFrequency 1) 0.6"
      using fact past by blast
    then have "paramValue (fire (tid ?tm) 0.6 glitchDraws ?st) (BankFrequency 1) 10 = paramValue ?st (BankFrequency 1) 0.6"
      by simp
    then show ?thesis unfolding v by simp
  qed
  have start: "valueAt (value0 ?st (BankFrequency 1)) (rev []) 0 \<noteq> 880"
    unfolding v0 by simp
  have "\<forall>older target now.
            timeline (BankFrequency 1) ?st = older @ [SetTargetAtTime target now 0.5] \<and> now \<le> 0.6 \<and>
            valueAt (value0 ?st (BankFrequency 1)) (rev older) now \<noteq> target \<longrightarrow>
            paramValue ?st (BankFrequency 1) 0.6 \<noteq> target"
    using fact by (elim conjE)
  then have "timeline (BankFrequency 1) ?st = [] @ [SetTargetAtTime 880 0 0.5] \<and> (0::real) \<le> 0.6 \<and>
            valueAt (value0 ?st (BankFrequency 1)) (rev []) 0 \<noteq> 880 \<longrightarrow>
            paramValue ?st (BankFrequency 1) 0.6 \<noteq> 880"
    by (elim allE)
  then have "paramValue ?st (BankFrequency 1) 0.6 \<noteq> 880"
    using tl start by simp
  then have ne: "880 - 440 * exp (- (6 / 5)) \<noteq> (880 :: real)"
    unfolding v .
  show ?thesis using sched later ne by blast
qed

section \<open>Smooth and instantaneous writes\<close>

text \<open>
  C5 (as amended). In any state, every call scheduled by \<open>setMuted\<close>,
  \<open>setScrollPosition\<close>, \<open>setStatus\<close> and \<open>setProfile\<close>, and by a tick of the wind
  gust (Natural) and of the detune jitter (Hostile), is smooth: a \<open>setTargetAtTime\<close>
  with a positive time constant or a ramp to an end time. The machine pulse (Industrial)
  schedules \<open>setValueAtTime 0.15\<close> before its two linear ramps, so it is not all
  smooth; neither is the alarm sweep once the graph is built, nor the glitch (Electronic)
  for any draw in \<open>[0, 1)\<close>.
\<close>

theorem control_surface_smooth:
  "allSmooth (scheduledBy st (setMuted m now st)) \<and>
   allSmooth (scheduledBy st (setScrollPosition pos now st)) \<and>
   allSmooth (scheduledBy st (setStatus s now st)) \<and>
   allSmooth (scheduledBy st (setProfile p now st)) \<and>
   allSmooth (scheduledBy st (runCallback WindGust t rnd st)) \<and>
   allSmooth (scheduledBy st (runCallback DetuneJitter t rnd st)) \<and>
   scheduledBy st (runCallback MachinePulse t rnd st) =
     [(DroneGain, SetValueAtTime 0.15 t),
      (DroneGain, LinearRampToValueAtTime 0.25 (t + 0.1)),
      (DroneGain, LinearRampToValueAtTime 0.15 (t + 0.5))] \<and>
   \<not> allSmooth (scheduledBy st (runCallback MachinePulse t rnd st)) \<and>
   (built st \<longrightarrow> \<not> allSmooth (scheduledBy st (runCallback AlarmSweep t rnd st))) \<and>
   (0 \<le> rnd 0 \<and> rnd 0 < 1 \<and> length (bank st) = 3 \<longrightarrow>
      \<not> allSmooth (scheduledBy st (runCallback GlitchBlip t rnd st)))"
proof (intro conjI impI)
  show "allSmooth (scheduledBy st (setMuted m now st))"
    by (simp add: setMuted_def muteEffect_def scheduledBy_def schedule_def allSmooth_def)
  show "allSmooth (scheduledBy st (setScrollPosition pos now st))"
    by (simp add: setScrollPosition_def panEffect_def scheduledBy_def schedule_def allSmooth_def
        Let_def)
  show "allSmooth (scheduledBy st (setStatus s now st))"
    by (simp add: setStatus_def statusEffect_def scheduledBy_def schedule_def setInterval_def
        Let_def allSmooth_def automation_statusCleanupRun)
  show "allSmooth (scheduledBy st (setProfile p now st))"
  proof (cases "p = profile (rendered st)")
    case True
    then show ?thesis by (simp add: setProfile_def scheduledBy_same allSmooth_def)
  next
    case False
    let ?st2 = "profileCleanupRun (st\<lparr>rendered := (rendered st)\<lparr>profile := p\<rparr>\<rparr>)"
    obtain calls where "automation (profileEffect now ?st2) = automation ?st2 @ calls"
      "allSmooth calls"
      using profileEffect_smooth by blast
    then show ?thesis
      using False by (simp add: setProfile_def scheduledBy_def automation_profileCleanupRun)
  qed
  show "allSmooth (scheduledBy st (runCallback WindGust t rnd st))"
    by (simp add: windGust_def scheduledBy_schedule allSmooth_def)
  show "allSmooth (scheduledBy st (runCallback DetuneJitter t rnd st))"
  proof -
    obtain calls where "fold (jitterOsc t rnd) [0 ..< length (bank st)] st = schedule calls st"
      "allSmooth calls"
      using fold_jitterOsc_smooth by blast
    then show ?thesis by (simp add: detuneJitter_def scheduledBy_schedule)
  qed
  show "scheduledBy st (runCallback MachinePulse t rnd st) =
     [(DroneGain, SetValueAtTime 0.15 t),
      (DroneGain, LinearRampToValueAtTime 0.25 (t + 0.1)),
      (DroneGain, LinearRampToValueAtTime 0.15 (t + 0.5))]"
    by (simp add: machinePulse_def scheduledBy_schedule)
  show "\<not> allSmooth (scheduledBy st (runCallback MachinePulse t rnd st))"
    by (simp add: machinePulse_def scheduledBy_schedule allSmooth_def)
  show "\<not> allSmooth (scheduledBy st (runCallback AlarmSweep t rnd st))" if "built st"
    using that by (simp add: alarmSweep_def scheduledBy_schedule allSmooth_def)
  show "\<not> allSmooth (scheduledBy st (runCallback GlitchBlip t rnd st))"
    if "0 \<le> rnd 0 \<and> rnd 0 < 1 \<and> length (bank st) = 3"
  proof -
    have "0 \<le> \<lfloor>rnd 0 * 3\<rfloor>" "\<lfloor>rnd 0 * 3\<rfloor> < 3"
      using that by (simp_all add: floor_less_iff)
    then show ?thesis
      using that by (simp add: glitchBlip_def Let_def scheduledBy_schedule allSmooth_def)
  qed
qed

theorem control_surface_smooth_witness:
  "allSmooth (scheduledBy (mount electronicProps 0) (setProfile ''Hostile'' 1 (mount electronicProps 0))) \<and>
   scheduledBy (mount electronicProps 0) (setProfile ''Hostile'' 1 (mount electronicProps 0)) \<noteq> [] \<and>
   \<not> allSmooth (scheduledBy (mount electronicProps 0)
        (runCallback AlarmSweep 2 zeroDraws (mount electronicProps 0)))"
proof -
  have b: "built (mount electronicProps 0)"
    unfolding mount_electronicProps by simp
  have n: "scheduledBy (mount electronicProps 0) (setProfile ''Hostile'' 1 (mount electronicProps 0)) \<noteq> []"
    unfolding mount_electronicProps
    by (simp add: setProfile_def profileCleanupRun_def clearInterval_def profileEffect_def
        caseHostile_def schedule_def setInterval_def Let_def scheduledBy_def electronicProps_def)
  show ?thesis
    using control_surface_smooth [where st = "mount electronicProps 0" and p = "''Hostile''"
        and now = 1 and t = 2 and rnd = zeroDraws] b n
    by simp
qed

text \<open>
  C5 as stated fails: after mounting with the Electronic profile, the glitch interval
  (id 1) firing at time 1 schedules \<open>setValueAtTime\<close> calls, which are instantaneous
  writes.
\<close>

theorem instantaneous_write_counterexample:
  "\<not> allSmooth (scheduledBy (mount electronicProps 0) (fire 1 1 zeroDraws (mount electronicProps 0)))"
  unfolding mount_electronicProps
  by (simp add: fire_def glitchBlip_def Let_def zeroDraws_def schedule_def scheduledBy_def
      allSmooth_def)

end
